theory Spec2Isabelle
  imports Complex_Main
begin

section \<open>Leveraged yield-farming simulator: liquidity math, strategies, driver\<close>

text \<open>
  Python floats are modelled as \<^typ>\<open>real\<close>: the embedding states the arithmetic the code
  writes down, not its rounding. A division whose divisor is zero, and a root or power
  of a negative number, have no counterpart in the model (HOL returns a fixed value
  there), so every theorem below keeps its inputs inside the domain where the two agree
  (positive prices, non-zero divisors). Exceptions are values of \<open>error\<close>; a function
  that can raise returns \<open>error + 'a\<close>.
\<close>

datatype error = ValueError | TypeError | KeyError | IndexError | UnboundLocalError | ZeroDivisionError

subsection \<open>strategies/core.py\<close>

text \<open>
  \<open>add_liquidity\<close>: opens a position. The swap fee comes off the capital first; the
  branch is chosen by \<open>leverage == 1\<close>, \<open>leverage == 2\<close>, \<open>leverage > 2\<close>, and any
  other leverage raises \<open>ValueError\<close>. The result is (token_supply, token_debt, fees).
\<close>

definition add_liquidity ::
  "real \<Rightarrow> real \<Rightarrow> real \<times> real \<Rightarrow> real \<Rightarrow> real \<Rightarrow> error + ((real \<times> real) \<times> (real \<times> real) \<times> real)" where
  "add_liquidity capital0 leverage pool_prices fee_swap fee_gas =
     (let (token0_price, token1_price) = pool_prices;
          capital = capital0 * (1 - fee_swap)
      in if leverage = 1 then
           (let token0_supply = (capital / 2) / token0_price;
                token1_supply = (capital / 2) / token1_price
            in Inr ((token0_supply, token1_supply), (0, 0), fee_gas))
         else if leverage = 2 then
           (let token0_debt = 0;
                token1_debt = capital / token1_price;
                token1_supply = token1_debt;
                token0_supply = capital / token0_price
            in Inr ((token0_supply, token1_supply), (token0_debt, token1_debt), 4 * fee_gas))
         else if leverage > 2 then
           (let token0_supply_value = (1 / 2) * leverage * capital;
                token1_supply_value = (1 / 2) * leverage * capital;
                token0_supply = token0_supply_value / token0_price;
                token1_supply = token1_supply_value / token1_price;
                multiplier = leverage - 1;
                token0_frac = 1 / (leverage / (leverage - 2) + 1);
                token1_frac = 1 - token0_frac;
                token0_debt_value = capital * token0_frac * multiplier;
                token1_debt_value = capital * token1_frac * multiplier;
                token0_debt = token0_debt_value / token0_price;
                token1_debt = token1_debt_value / token1_price
            in Inr ((token0_supply, token1_supply), (token0_debt, token1_debt), 6 * fee_gas))
         else Inl ValueError)"

text \<open>
  \<open>remove_liquidity\<close>: closes the fraction \<open>amount\<close> of the position. The result is
  (token_supply_remaining, token_debt_remaining, cash, fees); it never raises.
\<close>

definition remove_liquidity ::
  "real \<times> real \<Rightarrow> real \<times> real \<Rightarrow> real \<times> real \<Rightarrow> real \<Rightarrow> real \<Rightarrow> real
     \<Rightarrow> (real \<times> real) \<times> (real \<times> real) \<times> real \<times> real" where
  "remove_liquidity token_supply token_debt pool_prices amount fee_swap fee_gas =
     (let (token0_price, token1_price) = pool_prices;
          (token0_supply, token1_supply) = token_supply;
          (token0_debt, token1_debt) = token_debt;
          token0_supply_remaining = token0_supply * (1 - amount);
          token1_supply_remaining = token1_supply * (1 - amount);
          token0_debt_remaining = token0_debt * (1 - amount);
          token1_debt_remaining = token1_debt * (1 - amount);
          token0_equity = token0_supply - token0_debt;
          token0_sell = token0_equity * amount;
          token0_cash = token0_sell * token0_price * (1 - fee_swap);
          token1_equity = token1_supply - token1_debt;
          token1_sell = token1_equity * amount;
          token1_cash = token1_sell * token1_price * (1 - fee_swap);
          fees = fee_gas + fee_gas;
          cash = token0_cash + token1_cash
      in ((token0_supply_remaining, token1_supply_remaining),
          (token0_debt_remaining, token1_debt_remaining), cash, fees))"

subsection \<open>util.py\<close>

text \<open>
  \<open>iloss_amt\<close>: the pool after the price ratio moved to \<open>r\<close> with the product \<open>k\<close> held.
  The code computes \<open>x = (k * r) ** 0.5\<close>, \<open>y = (k / r) ** 0.5\<close> and returns \<open>[x, y]\<close>.
\<close>

definition iloss_amt :: "real \<Rightarrow> real \<Rightarrow> real \<times> real" where
  "iloss_amt k r = (let x = sqrt (k * r); y = sqrt (k / r) in (x, y))"

subsection \<open>strategies/rewards.py\<close>

text \<open>
  \<open>sell_rewards\<close>: sells the fraction \<open>amount\<close> of the reward tokens. \<open>pool_tokens\<close>
  is passed through untouched, whatever it is (the compounding strategy passes \<open>None\<close>).
  The result is (reward_tokens, pool_tokens, cash, fees).
\<close>

definition sell_rewards ::
  "real \<Rightarrow> real \<Rightarrow> 'p \<Rightarrow> real \<Rightarrow> real \<Rightarrow> real \<Rightarrow> real \<times> 'p \<times> real \<times> real" where
  "sell_rewards reward_tokens0 reward_price pool_tokens amount fee_swap fee_gas =
     (if amount \<le> 0 then (reward_tokens0, pool_tokens, 0, 0)
      else
        (let reward_tokens_sell = amount * reward_tokens0;
             reward_tokens = reward_tokens0 - reward_tokens_sell;
             reward_tokens_sell_after_fees = reward_tokens_sell * (1 - fee_swap);
             cash = reward_tokens_sell_after_fees * reward_price;
             fees = fee_gas * 1
         in (reward_tokens, pool_tokens, cash, fees)))"

text \<open>
  The initializers. Python checks the number of positional arguments when a function is
  called: \<open>RewardsStrategy.__init__(self, sell_amount)\<close> binds exactly one argument
  besides \<open>self\<close> and raises \<open>TypeError\<close> for any other number. The model takes the
  argument list of the call and returns the attribute \<open>_rewards_sell_amount\<close> of the new
  object. Python values are untyped, so the arguments are of any type \<open>'v\<close>.
  \<open>SellRewardsStrategy.__init__\<close> calls \<open>super().__init__(sell_amount)\<close>;
  \<open>CompoundRewardsStrategy.__init__\<close> calls \<open>super().__init__(rewards_fn, sell_amount)\<close>.
\<close>

definition RewardsStrategy_init :: "'v list \<Rightarrow> error + 'v" where
  "RewardsStrategy_init args =
     (case args of [sell_amount] \<Rightarrow> Inr sell_amount | _ \<Rightarrow> Inl TypeError)"

definition SellRewardsStrategy_init :: "'v \<Rightarrow> error + 'v" where
  "SellRewardsStrategy_init sell_amount = RewardsStrategy_init [sell_amount]"

definition CompoundRewardsStrategy_init :: "'v \<Rightarrow> 'v \<Rightarrow> error + 'v" where
  "CompoundRewardsStrategy_init rewards_fn sell_amount = RewardsStrategy_init [rewards_fn, sell_amount]"

text \<open>
  The two \<open>execute\<close> methods; the constructor argument is \<open>_rewards_sell_amount\<close>. The
  compounding variant is modelled from its body although its initializer cannot build it.
  The result is (reward_tokens, pool_tokens, cash, fees).
\<close>

datatype rewards_strategy = SellRewardsStrategy real | CompoundRewardsStrategy real

fun rewards_execute ::
  "rewards_strategy \<Rightarrow> real \<Rightarrow> real \<Rightarrow> real \<times> real \<Rightarrow> real \<times> real \<Rightarrow> real \<Rightarrow> real
     \<Rightarrow> real \<times> (real \<times> real) \<times> real \<times> real" where
  "rewards_execute (SellRewardsStrategy rewards_sell_amount)
       reward_tokens0 reward_price pool_tokens pool_prices fee_swap fee_gas =
     sell_rewards reward_tokens0 reward_price pool_tokens rewards_sell_amount fee_swap fee_gas"
| "rewards_execute (CompoundRewardsStrategy rewards_sell_amount)
       reward_tokens0 reward_price pool_tokens pool_prices fee_swap fee_gas =
     (if rewards_sell_amount \<le> 0 then (reward_tokens0, pool_tokens, 0, 0)
      else
        (let (reward_tokens, ignored, cash, fees) =
               sell_rewards reward_tokens0 reward_price (None :: (real \<times> real) option)
                 rewards_sell_amount fee_swap fee_gas;
             cash_swap_after_fees = (1 / 2) * cash * (1 - fee_swap);
             pool_tokens_updated =
               (fst pool_tokens + cash_swap_after_fees / fst pool_prices,
                snd pool_tokens + cash_swap_after_fees / snd pool_prices)
         in (reward_tokens, pool_tokens_updated, 0, fees + fee_gas * 2 + fee_gas * 1)))"

subsection \<open>The input table\<close>

text \<open>
  One row of the date-indexed DataFrame. The date is a day number. The two price columns
  are required; each other column may be absent from the table, and an absent column is
  \<open>None\<close> in every row. Reading an absent column from a row raises \<open>KeyError\<close>.
\<close>

record in_row =
  row_date :: int
  row_token0_price :: real
  row_token1_price :: real
  row_reward_token_price :: "real option"
  row_apy_trading_fee :: "real option"
  row_apy_reward :: "real option"
  row_apy_borrow_token0 :: "real option"
  row_apy_borrow_token1 :: "real option"

subsection \<open>strategies/trading.py\<close>

text \<open>
  The rebalancing strategy's attributes (\<open>self._price_anchor\<close>, ...). Its \<open>execute\<close>
  changes \<open>_price_anchor\<close>, so the model returns the updated object as well. The metadata
  dictionary is an association list.
\<close>

record rebalance =
  self_price_anchor :: real
  self_threshold :: real
  self_leverage :: real
  self_amount :: real
  self_fee_swap :: real
  self_fee_gas :: real
  self_initial_price :: real

definition RebalanceStrategy_init :: "real \<Rightarrow> real \<Rightarrow> real \<Rightarrow> real \<Rightarrow> real \<Rightarrow> real \<Rightarrow> rebalance" where
  "RebalanceStrategy_init price_anchor threshold leverage amount fee_swap fee_gas =
     \<lparr>self_price_anchor = price_anchor, self_threshold = threshold, self_leverage = leverage,
      self_amount = amount, self_fee_swap = fee_swap, self_fee_gas = fee_gas,
      self_initial_price = price_anchor\<rparr>"

text \<open>
  \<open>RebalanceStrategy.execute\<close>. The prices are those of the last row of the table it is
  given (\<open>df.iloc[-1]\<close>, an \<open>IndexError\<close> on an empty table). The result is
  (token_supply, token_debt, cash, fees, metadata, self). The model is that of the code
  for a non-zero anchor; with an anchor of 0 the code divides by zero.
\<close>

definition RebalanceStrategy_execute ::
  "rebalance \<Rightarrow> real \<times> real \<Rightarrow> real \<times> real \<Rightarrow> in_row list \<Rightarrow> real
     \<Rightarrow> error + ((real \<times> real) \<times> (real \<times> real) \<times> real \<times> real \<times> (string \<times> real) list \<times> rebalance)" where
  "RebalanceStrategy_execute self token_supply token_debt df input_cash =
     (if df = [] then Inl IndexError
      else
        (let token0_price = row_token0_price (last df);
             token1_price = row_token1_price (last df);
             pool_prices = (token0_price, token1_price);
             output_cash = input_cash;
             fees = 0;
             price_delta = \<bar>token1_price - self_price_anchor self\<bar> / self_price_anchor self;
             metadata = [(''price_delta'', price_delta)]
         in if price_delta > self_threshold self then
              (let (token_supply_remaining, token_debt_remaining, cash_close, fees_close) =
                     remove_liquidity token_supply token_debt pool_prices
                       (self_amount self) (self_fee_swap self) (self_fee_gas self)
               in case add_liquidity cash_close (self_leverage self) pool_prices
                         (self_fee_swap self) (self_fee_gas self) of
                    Inl e \<Rightarrow> Inl e
                  | Inr (token_supply_open, token_debt_open, fees_open) \<Rightarrow>
                      Inr (token_supply_open, token_debt_open, output_cash, fees_close + fees_open,
                           metadata, self\<lparr>self_price_anchor := token1_price\<rparr>))
            else Inr (token_supply, token_debt, output_cash, fees, metadata, self)))"

datatype trading_strategy = HODLStrategy | RebalanceStrategy rebalance

fun trading_execute ::
  "trading_strategy \<Rightarrow> real \<times> real \<Rightarrow> real \<times> real \<Rightarrow> in_row list \<Rightarrow> real
     \<Rightarrow> error + ((real \<times> real) \<times> (real \<times> real) \<times> real \<times> real \<times> (string \<times> real) list \<times> trading_strategy)" where
  "trading_execute HODLStrategy token_supply token_debt df input_cash =
     Inr (token_supply, token_debt, input_cash, 0, [], HODLStrategy)"
| "trading_execute (RebalanceStrategy self) token_supply token_debt df input_cash =
     (case RebalanceStrategy_execute self token_supply token_debt df input_cash of
        Inl e \<Rightarrow> Inl e
      | Inr (token_supply_out, token_debt_out, cash_out, fees, metadata, self_out) \<Rightarrow>
          Inr (token_supply_out, token_debt_out, cash_out, fees, metadata, RebalanceStrategy self_out))"

subsection \<open>simulation.py\<close>

text \<open>The arguments of \<open>simulate\<close> other than the table; an optional argument left out is \<open>None\<close>.\<close>

record sim_args =
  arg_strategy_cls :: trading_strategy
  arg_rewards_cls :: rewards_strategy
  arg_initial_cap :: real
  arg_leverage :: real
  arg_fee_gas :: real
  arg_fee_swap :: real
  arg_reward_token_price :: "real option"
  arg_apy_trading_fee :: "real option"
  arg_apy_reward :: "real option"
  arg_apy_borrow_token0 :: "real option"
  arg_apy_borrow_token1 :: "real option"
  arg_open_on_start :: bool

text \<open>
  Lines 100 to 109: a column that the table lacks is created from the argument of the same
  name when that argument is given; a column the table has is left as it is.
\<close>

definition fill_col :: "real option \<Rightarrow> real option \<Rightarrow> real option" where
  "fill_col col arg = (case col of None \<Rightarrow> arg | Some v \<Rightarrow> Some v)"

definition fill_missing :: "sim_args \<Rightarrow> in_row \<Rightarrow> in_row" where
  "fill_missing a row =
     row\<lparr>row_reward_token_price := fill_col (row_reward_token_price row) (arg_reward_token_price a),
         row_apy_trading_fee := fill_col (row_apy_trading_fee row) (arg_apy_trading_fee a),
         row_apy_reward := fill_col (row_apy_reward row) (arg_apy_reward a),
         row_apy_borrow_token0 := fill_col (row_apy_borrow_token0 row) (arg_apy_borrow_token0 a),
         row_apy_borrow_token1 := fill_col (row_apy_borrow_token1 row) (arg_apy_borrow_token1 a)\<rparr>"

text \<open>The values fixed before the loop, and the variables the loop carries from epoch to epoch.\<close>

record sim_consts =
  ratio_initial :: real
  token0_supply_initial :: real
  token1_supply_initial :: real
  first_date :: int

record sim_state =
  last_token0_supply :: real
  last_token1_supply :: real
  last_token0_debt :: real
  last_token1_debt :: real
  cash_accum :: real
  fees_accum :: real
  rewards_accum :: real
  strategy_cls :: trading_strategy

text \<open>
  The two ratio metrics of an epoch, \<open>debt_ratio\<close> and \<open>effective_leverage\<close>, are
  divisions of numpy scalars: the debts are products with \<open>np.exp(...)\<close>, or the supplies
  come from the cash of a close of such debts, so \<open>pool_equity\<close> and the divisor of
  \<open>debt_ratio\<close> are \<open>numpy.float64\<close>. numpy's division does not raise on a zero divisor:
  it gives \<open>nan\<close> for 0 / 0 and an infinity with the sign of the dividend otherwise. The
  two fields hold such a value; nothing later in the loop reads them.
\<close>

datatype np_float = Finite real | PosInf | NegInf | NaN

definition np_divide :: "real \<Rightarrow> real \<Rightarrow> np_float" where
  "np_divide x y =
     (if y = 0 then (if x = 0 then NaN else if 0 < x then PosInf else NegInf)
      else Finite (x / y))"

text \<open>The \<open>daily_record\<close> dictionary, one field per key.\<close>

record epoch_record =
  rec_token0_supply_open :: real
  rec_token1_supply_open :: real
  rec_position_pool_open_dollars :: real
  rec_apy_total :: real
  rec_token0_earnings :: real
  rec_token1_earnings :: real
  rec_trading_fee_earnings_dollars :: real
  rec_reward_earnings_dollars :: real
  rec_reward_token_earnings :: real
  rec_cash_from_rewards :: real
  rec_token0_supply_close :: real
  rec_token1_supply_close :: real
  rec_token0_debt_close :: real
  rec_token1_debt_close :: real
  rec_pool_value :: real
  rec_cash_value :: real
  rec_rewards_value :: real
  rec_fees_value :: real
  rec_position_value :: real
  rec_debt_value :: real
  rec_pool_equity :: real
  rec_equity_value :: real
  rec_profit_value :: real
  rec_effective_leverage :: np_float
  rec_roi :: real
  rec_annualized_apr :: real
  rec_debt_ratio :: np_float
  rec_iloss :: real
  rec_position_hodl_dollars :: real
  rec_trade_event :: bool
  rec_strategy_metadata :: "(string \<times> real) list"

text \<open>
  Lines 117 to 157, the part of \<open>simulate\<close> before the loop. \<open>df["token0_price"][0]\<close>
  raises on a table without rows. With \<open>open_on_start\<close> the position is opened by
  \<open>add_liquidity\<close>; without it \<open>fees_open\<close> is never assigned and line 151 raises
  \<open>UnboundLocalError\<close>.
\<close>

definition simulate_init :: "sim_args \<Rightarrow> in_row list \<Rightarrow> error + (sim_consts \<times> sim_state)" where
  "simulate_init a df =
     (case df of
        [] \<Rightarrow> Inl IndexError
      | row0 # rest \<Rightarrow>
          (let price0_initial = row_token0_price row0;
               price1_initial = row_token1_price row0
           in if arg_open_on_start a then
                (case add_liquidity (arg_initial_cap a) (arg_leverage a) (price0_initial, price1_initial)
                        (arg_fee_swap a) (arg_fee_gas a) of
                   Inl e \<Rightarrow> Inl e
                 | Inr ((token0_supply, token1_supply), (token0_debt, token1_debt), fees_open) \<Rightarrow>
                     Inr (\<lparr>ratio_initial = price1_initial / price0_initial,
                           token0_supply_initial = token0_supply,
                           token1_supply_initial = token1_supply,
                           first_date = row_date row0\<rparr>,
                          \<lparr>last_token0_supply = token0_supply,
                           last_token1_supply = token1_supply,
                           last_token0_debt = token0_debt,
                           last_token1_debt = token1_debt,
                           cash_accum = 0,
                           fees_accum = fees_open,
                           rewards_accum = 0,
                           strategy_cls = arg_strategy_cls a\<rparr>))
              else Inl UnboundLocalError))"

text \<open>
  Line 282: a trade is recorded when the strategy returned a supply or a debt that differs
  from the one it was given.
\<close>

definition trade_occurred :: "real \<times> real \<Rightarrow> real \<times> real \<Rightarrow> real \<times> real \<Rightarrow> real \<times> real \<Rightarrow> bool" where
  "trade_occurred token_supply_in token_supply_out token_debt_in token_debt_out =
     (token_supply_in \<noteq> token_supply_out \<or> token_debt_in \<noteq> token_debt_out)"

text \<open>
  Lines 160 to 409, one pass of the loop body, in the order of the source: the reads of
  the row (an absent column raises \<open>KeyError\<close>), repricing, earnings, the debt accrual
  with the \<^emph>\<open>arguments\<close> \<open>apy_borrow_token0\<close> and \<open>apy_borrow_token1\<close> (\<open>None * 1.0\<close>
  raises \<open>TypeError\<close>), the reward strategy, the trading strategy on the rows dated up to
  the current one, the bookkeeping and the metrics (\<open>365 / days_elapsed\<close> divides Python
  numbers and raises \<open>ZeroDivisionError\<close> for zero). \<open>row["fee_gas"]\<close> is the argument
  \<open>fee_gas\<close>, written into the table at line 110.
\<close>

definition epoch ::
  "sim_args \<Rightarrow> sim_consts \<Rightarrow> in_row list \<Rightarrow> in_row \<Rightarrow> sim_state \<Rightarrow> error + (sim_state \<times> epoch_record)" where
  "epoch a c df row st =
     (let cur_date = row_date row;
          days_elapsed = cur_date - first_date c + 1;
          token0_price = row_token0_price row;
          token1_price = row_token1_price row
      in (case row_reward_token_price row of None \<Rightarrow> Inl KeyError | Some reward_token_price \<Rightarrow>
         (case row_apy_trading_fee row of None \<Rightarrow> Inl KeyError | Some apy_trading_fee \<Rightarrow>
         (case row_apy_reward row of None \<Rightarrow> Inl KeyError | Some apy_reward \<Rightarrow>
         (case arg_apy_borrow_token0 a of None \<Rightarrow> Inl TypeError | Some apy_borrow_token0 \<Rightarrow>
         (case arg_apy_borrow_token1 a of None \<Rightarrow> Inl TypeError | Some apy_borrow_token1 \<Rightarrow>
        (let ratio = token1_price / token0_price;
             fee_gas = arg_fee_gas a;
             tk = last_token0_supply st * last_token1_supply st;
             (token0_supply_open, token1_supply_open) = iloss_amt tk ratio;
             position_pool_open_dollars =
               token0_price * token0_supply_open + token1_price * token1_supply_open;
             apy_total = apy_trading_fee + apy_reward;
             token0_earnings = token0_supply_open * (apy_trading_fee / 365.25);
             token1_earnings = token1_supply_open * (apy_trading_fee / 365.25);
             trading_fee_earnings_dollars =
               token0_earnings * token0_price + token1_earnings * token1_price;
             reward_earnings_dollars = position_pool_open_dollars * apy_reward / 365.25;
             reward_token_earnings = reward_earnings_dollars / reward_token_price;
             token0_debt_cur = last_token0_debt st * exp (apy_borrow_token0 * 1 / 365.25);
             token1_debt_cur = last_token1_debt st * exp (apy_borrow_token1 * 1 / 365.25);
             (reward_tokens_remaining, pool_tokens_from_rewards, cash_rewards, fees_rewards) =
               rewards_execute (arg_rewards_cls a) reward_token_earnings reward_token_price (0, 0)
                 (token0_price, token1_price) (arg_fee_swap a) fee_gas;
             token0_supply_cur = token0_supply_open + token0_earnings + fst pool_tokens_from_rewards;
             token1_supply_cur = token1_supply_open + token1_earnings + snd pool_tokens_from_rewards;
             cash_in = cash_accum st + cash_rewards;
             df_input = filter (\<lambda>r. row_date r \<le> cur_date) df;
             token_supply_in = (token0_supply_cur, token1_supply_cur);
             token_debt_in = (token0_debt_cur, token1_debt_cur)
         in case trading_execute (strategy_cls st) token_supply_in token_debt_in df_input cash_in of
              Inl e \<Rightarrow> Inl e
            | Inr (token_supply_out, token_debt_out, cash_out, fees_trade, strategy_metadata, strategy_out) \<Rightarrow>
               (let trade = trade_occurred token_supply_in token_supply_out token_debt_in token_debt_out;
                    (token0_supply_close, token1_supply_close) = token_supply_out;
                    (token0_debt_close, token1_debt_close) = token_debt_out;
                    rewards_total = rewards_accum st + reward_tokens_remaining;
                    fees_total = fees_accum st + fees_rewards + fees_trade;
                    token0_debt_value = token0_debt_close * token0_price;
                    token1_debt_value = token1_debt_close * token1_price;
                    pool_value = token0_price * token0_supply_close + token1_price * token1_supply_close;
                    cash_value = cash_out;
                    fees_value = fees_total;
                    rewards_value = rewards_total * reward_token_price;
                    position_value = pool_value + rewards_value + cash_value - fees_value;
                    debt_value = token0_debt_value + token1_debt_value;
                    pool_equity = pool_value - debt_value;
                    equity_value = position_value - debt_value;
                    profit_value = equity_value - arg_initial_cap a;
                    roi = profit_value / arg_initial_cap a;
                    debt_ratio = np_divide debt_value (debt_value + pool_equity)
                in if days_elapsed = 0 then Inl ZeroDivisionError
                   else
                    (let annualized_apr =
                           (1 + profit_value / arg_initial_cap a) powr (365 / real_of_int days_elapsed) - 1;
                         effective_leverage = np_divide pool_value pool_equity;
                         rel_ratio = ratio_initial c / ratio;
                         iloss = 2 * (sqrt rel_ratio / (1 + rel_ratio)) - 1;
                         position_hodl_dollars =
                           (token0_price * token0_supply_initial c + token1_price * token1_supply_initial c)
                             / arg_leverage a
                     in Inr (\<lparr>last_token0_supply = token0_supply_close,
                              last_token1_supply = token1_supply_close,
                              last_token0_debt = token0_debt_close,
                              last_token1_debt = token1_debt_close,
                              cash_accum = cash_out,
                              fees_accum = fees_total,
                              rewards_accum = rewards_total,
                              strategy_cls = strategy_out\<rparr>,
                             \<lparr>rec_token0_supply_open = token0_supply_open,
                              rec_token1_supply_open = token1_supply_open,
                              rec_position_pool_open_dollars = position_pool_open_dollars,
                              rec_apy_total = apy_total,
                              rec_token0_earnings = token0_earnings,
                              rec_token1_earnings = token1_earnings,
                              rec_trading_fee_earnings_dollars = trading_fee_earnings_dollars,
                              rec_reward_earnings_dollars = reward_earnings_dollars,
                              rec_reward_token_earnings = reward_token_earnings,
                              rec_cash_from_rewards = cash_rewards,
                              rec_token0_supply_close = token0_supply_close,
                              rec_token1_supply_close = token1_supply_close,
                              rec_token0_debt_close = token0_debt_close,
                              rec_token1_debt_close = token1_debt_close,
                              rec_pool_value = pool_value,
                              rec_cash_value = cash_value,
                              rec_rewards_value = rewards_value,
                              rec_fees_value = fees_value,
                              rec_position_value = position_value,
                              rec_debt_value = debt_value,
                              rec_pool_equity = pool_equity,
                              rec_equity_value = equity_value,
                              rec_profit_value = profit_value,
                              rec_effective_leverage = effective_leverage,
                              rec_roi = roi,
                              rec_annualized_apr = annualized_apr,
                              rec_debt_ratio = debt_ratio,
                              rec_iloss = iloss,
                              rec_position_hodl_dollars = position_hodl_dollars,
                              rec_trade_event = trade,
                              rec_strategy_metadata = strategy_metadata\<rparr>))))))))))"

text \<open>
  The loop over the rows: the first exception ends the run, otherwise every row yields
  its record, in order. \<open>simulate\<close> fills the missing columns, runs the part before the
  loop and then the loop; its result stands for the derived columns of the returned table.
\<close>

fun simulate_loop ::
  "sim_args \<Rightarrow> sim_consts \<Rightarrow> in_row list \<Rightarrow> in_row list \<Rightarrow> sim_state \<Rightarrow> error + epoch_record list" where
  "simulate_loop a c df [] st = Inr []"
| "simulate_loop a c df (row # rows) st =
     (case epoch a c df row st of
        Inl e \<Rightarrow> Inl e
      | Inr (st', r) \<Rightarrow>
          (case simulate_loop a c df rows st' of
             Inl e \<Rightarrow> Inl e
           | Inr rs \<Rightarrow> Inr (r # rs)))"

definition simulate :: "in_row list \<Rightarrow> sim_args \<Rightarrow> error + epoch_record list" where
  "simulate df0 a =
     (let df = map (fill_missing a) df0
      in case simulate_init a df of
           Inl e \<Rightarrow> Inl e
         | Inr (c, st) \<Rightarrow> simulate_loop a c df df st)"

subsection \<open>A rebalancing run, as specified\<close>

text \<open>
  The run of the threshold-rebalance strategy in the words of the rebalancing property
  proved below, for comparison with \<open>simulate\<close>. One epoch starts from the previous closing supply and debt
  and the current anchor. The pool is repriced to the row's price ratio; the working supply
  is the repriced pool plus the trading-fee earnings and the tokens bought by the reward
  strategy; the working debt is the previous debt compounded at the row's borrow rates.
  price_delta is |p1 - anchor| / anchor. If it exceeds the threshold, the working position
  is closed by the liquidity-math close and reopened by the liquidity-math open at the
  target leverage on the cash of the close, the anchor becomes the current price, and the
  trade event is set exactly when the reopened supply or debt differs from the working
  one. Otherwise the working position is kept, with the anchor, and no trade event is
  set. The result of an epoch is (metadata, trade_event, closing supply, closing debt,
  strategy for the next epoch); a run lists the first four for every row.
\<close>

definition spec_rebalance_step ::
  "rewards_strategy \<Rightarrow> real \<Rightarrow> real \<Rightarrow> rebalance \<Rightarrow> real \<times> real \<Rightarrow> real \<times> real \<Rightarrow> in_row
     \<Rightarrow> ((string \<times> real) list \<times> bool \<times> (real \<times> real) \<times> (real \<times> real) \<times> rebalance) option" where
  "spec_rebalance_step rewards fee_swap fee_gas self supply debt row =
     (case (row_reward_token_price row, row_apy_trading_fee row, row_apy_reward row,
            row_apy_borrow_token0 row, row_apy_borrow_token1 row) of
        (Some rp, Some fa, Some ra, Some b0, Some b1) \<Rightarrow>
          (let p0 = row_token0_price row;
               p1 = row_token1_price row;
               (o0, o1) = iloss_amt (fst supply * snd supply) (p1 / p0);
               (remaining, bought, cash, fees) =
                 rewards_execute rewards ((p0 * o0 + p1 * o1) * ra / 365.25 / rp) rp (0, 0) (p0, p1)
                   fee_swap fee_gas;
               working_supply = (o0 + o0 * (fa / 365.25) + fst bought, o1 + o1 * (fa / 365.25) + snd bought);
               working_debt = (fst debt * exp (b0 / 365.25), snd debt * exp (b1 / 365.25));
               price_delta = \<bar>p1 - self_price_anchor self\<bar> / self_price_anchor self
           in if self_threshold self < price_delta then
                (let (kept_supply, kept_debt, cash_close, fees_close) =
                       remove_liquidity working_supply working_debt (p0, p1)
                         (self_amount self) (self_fee_swap self) (self_fee_gas self)
                 in case add_liquidity cash_close (self_leverage self) (p0, p1)
                           (self_fee_swap self) (self_fee_gas self) of
                      Inl e \<Rightarrow> None
                    | Inr (reopened_supply, reopened_debt, fees_open) \<Rightarrow>
                        Some ([(''price_delta'', price_delta)],
                              working_supply \<noteq> reopened_supply \<or> working_debt \<noteq> reopened_debt,
                              reopened_supply, reopened_debt,
                              self\<lparr>self_price_anchor := p1\<rparr>))
              else Some ([(''price_delta'', price_delta)], False, working_supply, working_debt, self))
      | _ \<Rightarrow> None)"



subsection \<open>Example inputs\<close>

text \<open>
  A two-day table with both prices at 1, zero trading-fee and reward yields, a reward
  token priced at 1 and no borrow columns; and the arguments of a run on 200 of capital
  that holds the position, sells all rewards, pays no gas and borrows at rate zero.
\<close>

definition ex_flat_table :: "in_row list" where
  "ex_flat_table =
     [\<lparr>row_date = 0, row_token0_price = 1, row_token1_price = 1,
       row_reward_token_price = Some 1, row_apy_trading_fee = Some 0, row_apy_reward = Some 0,
       row_apy_borrow_token0 = None, row_apy_borrow_token1 = None\<rparr>,
      \<lparr>row_date = 1, row_token0_price = 1, row_token1_price = 1,
       row_reward_token_price = Some 1, row_apy_trading_fee = Some 0, row_apy_reward = Some 0,
       row_apy_borrow_token0 = None, row_apy_borrow_token1 = None\<rparr>]"

definition ex_hodl_args :: "real \<Rightarrow> real \<Rightarrow> sim_args" where
  "ex_hodl_args leverage fee_swap =
     \<lparr>arg_strategy_cls = HODLStrategy, arg_rewards_cls = SellRewardsStrategy 1,
      arg_initial_cap = 200, arg_leverage = leverage, arg_fee_gas = 0, arg_fee_swap = fee_swap,
      arg_reward_token_price = None, arg_apy_trading_fee = None, arg_apy_reward = None,
      arg_apy_borrow_token0 = Some 0, arg_apy_borrow_token1 = Some 0, arg_open_on_start = True\<rparr>"

text \<open>
  The same table with token1 jumping from 1 to 4 on the second day; with borrow-rate
  columns that vary by day; and without the reward-token price column. The rebalancing
  run anchors at price 1, rebalances beyond a 10 percent move, closes the whole position
  and reopens at the given leverage, without fees.
\<close>

definition ex_jump_table :: "in_row list" where
  "ex_jump_table =
     [\<lparr>row_date = 0, row_token0_price = 1, row_token1_price = 1,
       row_reward_token_price = Some 1, row_apy_trading_fee = Some 0, row_apy_reward = Some 0,
       row_apy_borrow_token0 = None, row_apy_borrow_token1 = None\<rparr>,
      \<lparr>row_date = 1, row_token0_price = 1, row_token1_price = 4,
       row_reward_token_price = Some 1, row_apy_trading_fee = Some 0, row_apy_reward = Some 0,
       row_apy_borrow_token0 = None, row_apy_borrow_token1 = None\<rparr>]"

definition ex_borrow_table :: "in_row list" where
  "ex_borrow_table =
     [\<lparr>row_date = 0, row_token0_price = 1, row_token1_price = 1,
       row_reward_token_price = Some 1, row_apy_trading_fee = Some 0, row_apy_reward = Some 0,
       row_apy_borrow_token0 = Some (1 / 10), row_apy_borrow_token1 = Some (1 / 10)\<rparr>,
      \<lparr>row_date = 1, row_token0_price = 1, row_token1_price = 1,
       row_reward_token_price = Some 1, row_apy_trading_fee = Some 0, row_apy_reward = Some 0,
       row_apy_borrow_token0 = Some (2 / 10), row_apy_borrow_token1 = Some (2 / 10)\<rparr>]"

definition ex_no_reward_price_table :: "in_row list" where
  "ex_no_reward_price_table =
     [\<lparr>row_date = 0, row_token0_price = 1, row_token1_price = 1,
       row_reward_token_price = None, row_apy_trading_fee = Some 0, row_apy_reward = Some 0,
       row_apy_borrow_token0 = None, row_apy_borrow_token1 = None\<rparr>,
      \<lparr>row_date = 1, row_token0_price = 1, row_token1_price = 1,
       row_reward_token_price = None, row_apy_trading_fee = Some 0, row_apy_reward = Some 0,
       row_apy_borrow_token0 = None, row_apy_borrow_token1 = None\<rparr>]"


text \<open>
  The constants and the loop state right after the first table's position is opened at
  leverage 1 on 200 of capital without fees: 100 of each token, no debt.
\<close>

definition ex_consts :: sim_consts where
  "ex_consts = \<lparr>ratio_initial = 1, token0_supply_initial = 100, token1_supply_initial = 100,
                first_date = 0\<rparr>"

definition ex_state :: "trading_strategy \<Rightarrow> sim_state" where
  "ex_state strategy =
     \<lparr>last_token0_supply = 100, last_token1_supply = 100, last_token0_debt = 0,
      last_token1_debt = 0, cash_accum = 0, fees_accum = 0, rewards_accum = 0,
      strategy_cls = strategy\<rparr>"

text \<open>
  The constants and the loop state right after the first table's position is opened at
  leverage 2 on 200 of capital without fees: 200 of each token, 200 of token1 owed.
\<close>

definition ex_levered_consts :: sim_consts where
  "ex_levered_consts = \<lparr>ratio_initial = 1, token0_supply_initial = 200,
                        token1_supply_initial = 200, first_date = 0\<rparr>"

definition ex_levered_state :: sim_state where
  "ex_levered_state =
     \<lparr>last_token0_supply = 200, last_token1_supply = 200, last_token0_debt = 0,
      last_token1_debt = 200, cash_accum = 0, fees_accum = 0, rewards_accum = 0,
      strategy_cls = HODLStrategy\<rparr>"

section \<open>Properties\<close>

subsection \<open>Auxiliary facts\<close>

lemma sqrt_values:
  "sqrt 10000 = 100" "sqrt 40000 = 200" "sqrt 2500 = 50" "sqrt (1 / 4) = 1 / 2" "sqrt 9801 = 99"
  "sqrt 160000 = 400"
  using real_sqrt_abs2 [of 100] real_sqrt_abs2 [of 200] real_sqrt_abs2 [of 50]
    real_sqrt_abs2 [of "1 / 2"] real_sqrt_abs2 [of 99] real_sqrt_abs2 [of 400]
  by (simp_all add: power2_eq_square real_sqrt_divide)

lemmas run_simps =
  simulate_def simulate_init_def fill_missing_def fill_col_def add_liquidity_def
  remove_liquidity_def epoch_def iloss_amt_def sell_rewards_def RebalanceStrategy_execute_def
  RebalanceStrategy_init_def trade_occurred_def np_divide_def Let_def sqrt_values

lemma iloss_amt_balanced:
  assumes "0 \<le> s0" "0 \<le> s1" "0 < p0" "0 < p1" "s0 * p0 = s1 * p1"
  shows "iloss_amt (s0 * s1) (p1 / p0) = (s0, s1)"
proof -
  have s1: "s1 = s0 * p0 / p1" using assms by (simp add: field_simps)
  have s0: "s0 = s1 * p1 / p0" using assms by (simp add: field_simps)
  have a: "s0 * s1 * (p1 / p0) = s0 * s0" using assms s1 by (simp add: field_simps)
  have b: "s0 * s1 / (p1 / p0) = s1 * s1" using assms s0 by (simp add: field_simps)
  show ?thesis unfolding iloss_amt_def Let_def a b using assms by simp
qed

lemma add_liquidity_balanced:
  assumes "0 \<le> capital * (1 - fee_swap)" "0 < p0" "0 < p1" "L = 1 \<or> 2 \<le> L"
  shows "\<exists>s0 s1 d0 d1 f.
           add_liquidity capital L (p0, p1) fee_swap fee_gas = Inr ((s0, s1), (d0, d1), f)
         \<and> 0 \<le> s0 \<and> 0 \<le> s1 \<and> s0 * p0 = s1 * p1
         \<and> p0 * s0 + p1 * s1 - (d0 * p0 + d1 * p1) = capital * (1 - fee_swap)
         \<and> (fee_gas = 0 \<longrightarrow> f = 0)"
proof -
  consider "L = 1" | "L = 2" | "2 < L" using assms(4) by linarith
  then show ?thesis
  proof cases
    case 1
    then show ?thesis using assms by (simp add: add_liquidity_def Let_def)
  next
    case 2
    then show ?thesis using assms by (simp add: add_liquidity_def Let_def)
  next
    case 3
    let ?c = "capital * (1 - fee_swap)"
    let ?f = "1 / (L / (L - 2) + 1)"
    have e: "L * ?c - (?c * ?f * (L - 1) + ?c * (1 - ?f) * (L - 1)) = ?c"
      by (simp add: algebra_simps)
    have nn: "0 \<le> L * ?c" using 3 assms(1) by simp
    show ?thesis using 3 assms(2,3) e nn
      by (simp add: add_liquidity_def Let_def)
  qed
qed

lemma rewards_execute_nothing:
  "\<exists>fr. rewards_execute rs 0 rp (0, 0) (p0, p1) fee_swap fee_gas = (0, (0, 0), 0, fr)
        \<and> (fee_gas = 0 \<longrightarrow> fr = 0)"
  by (cases rs) (simp_all add: sell_rewards_def Let_def)


lemma epoch_idle:
  assumes row: "row_token0_price row = p0" "row_token1_price row = p1"
      "row_reward_token_price row = Some rp" "row_apy_trading_fee row = Some 0"
      "row_apy_reward row = Some 0"
    and args: "arg_apy_borrow_token0 a = Some 0" "arg_apy_borrow_token1 a = Some 0"
    and st: "strategy_cls st = HODLStrategy" "cash_accum st = 0" "rewards_accum st = 0"
    and bal: "0 \<le> last_token0_supply st" "0 \<le> last_token1_supply st"
      "last_token0_supply st * p0 = last_token1_supply st * p1"
    and pos: "0 < p0" "0 < p1"
    and days: "row_date row - first_date c + 1 \<noteq> 0"
    and ri: "ratio_initial c = p1 / p0"
  shows "\<exists>fr r. epoch a c df row st = Inr (st\<lparr>fees_accum := fees_accum st + fr\<rparr>, r)
           \<and> (arg_fee_gas a = 0 \<longrightarrow> fr = 0)
           \<and> rec_token0_supply_close r = last_token0_supply st
           \<and> rec_token1_supply_close r = last_token1_supply st
           \<and> rec_token0_debt_close r = last_token0_debt st
           \<and> rec_token1_debt_close r = last_token1_debt st
           \<and> rec_iloss r = 0
           \<and> rec_fees_value r = fees_accum st + fr
           \<and> rec_profit_value r =
               p0 * last_token0_supply st + p1 * last_token1_supply st
               - (last_token0_debt st * p0 + last_token1_debt st * p1)
               - (fees_accum st + fr) - arg_initial_cap a"
proof -
  obtain fr where fr:
    "rewards_execute (arg_rewards_cls a) 0 rp (0, 0) (p0, p1) (arg_fee_swap a) (arg_fee_gas a)
       = (0, (0, 0), 0, fr)" "arg_fee_gas a = 0 \<longrightarrow> fr = 0"
    using rewards_execute_nothing by blast
  have il: "iloss_amt (last_token0_supply st * last_token1_supply st) (p1 / p0)
              = (last_token0_supply st, last_token1_supply st)"
    by (rule iloss_amt_balanced [OF bal(1,2) pos bal(3)])
  have rr: "p1 * p0 / (p0 * p1) = 1" using pos by simp
  show ?thesis
    using fr days pos
    by (simp add: epoch_def Let_def row args st il ri trade_occurred_def rr)
qed


lemma simulate_loop_idle:
  assumes rows: "\<forall>row\<in>set rows. row_token0_price row = p0 \<and> row_token1_price row = p1
        \<and> (\<exists>rp. row_reward_token_price row = Some rp) \<and> row_apy_trading_fee row = Some 0
        \<and> row_apy_reward row = Some 0 \<and> row_date row - first_date c + 1 \<noteq> 0"
    and args: "arg_apy_borrow_token0 a = Some 0" "arg_apy_borrow_token1 a = Some 0"
    and st: "strategy_cls st = HODLStrategy" "cash_accum st = 0" "rewards_accum st = 0"
    and bal: "0 \<le> last_token0_supply st" "0 \<le> last_token1_supply st"
      "last_token0_supply st * p0 = last_token1_supply st * p1"
    and pos: "0 < p0" "0 < p1"
    and ri: "ratio_initial c = p1 / p0"
  shows "\<exists>rs. simulate_loop a c df rows st = Inr rs \<and> length rs = length rows
           \<and> (\<forall>r\<in>set rs.
                 rec_token0_supply_close r = last_token0_supply st
               \<and> rec_token1_supply_close r = last_token1_supply st
               \<and> rec_token0_debt_close r = last_token0_debt st
               \<and> rec_token1_debt_close r = last_token1_debt st
               \<and> rec_iloss r = 0
               \<and> rec_profit_value r =
                   p0 * last_token0_supply st + p1 * last_token1_supply st
                   - (last_token0_debt st * p0 + last_token1_debt st * p1)
                   - rec_fees_value r - arg_initial_cap a
               \<and> (arg_fee_gas a = 0 \<and> fees_accum st = 0 \<longrightarrow> rec_fees_value r = 0))"
  using rows st bal
proof (induction rows arbitrary: st)
  case Nil
  then show ?case by simp
next
  case (Cons row rows)
  from Cons.prems(1) obtain rp where row:
    "row_token0_price row = p0" "row_token1_price row = p1"
    "row_reward_token_price row = Some rp" "row_apy_trading_fee row = Some 0"
    "row_apy_reward row = Some 0" "row_date row - first_date c + 1 \<noteq> 0"
    by auto
  from epoch_idle [OF row(1-5) args Cons.prems(2-7) pos row(6) ri, of df]
  obtain fr r where e:
    "epoch a c df row st = Inr (st\<lparr>fees_accum := fees_accum st + fr\<rparr>, r)"
    "arg_fee_gas a = 0 \<longrightarrow> fr = 0"
    "rec_token0_supply_close r = last_token0_supply st"
    "rec_token1_supply_close r = last_token1_supply st"
    "rec_token0_debt_close r = last_token0_debt st"
    "rec_token1_debt_close r = last_token1_debt st"
    "rec_iloss r = 0"
    "rec_fees_value r = fees_accum st + fr"
    "rec_profit_value r =
       p0 * last_token0_supply st + p1 * last_token1_supply st
       - (last_token0_debt st * p0 + last_token1_debt st * p1)
       - (fees_accum st + fr) - arg_initial_cap a"
    by blast
  let ?st = "st\<lparr>fees_accum := fees_accum st + fr\<rparr>"
  have rows': "\<forall>row\<in>set rows. row_token0_price row = p0 \<and> row_token1_price row = p1
        \<and> (\<exists>rp. row_reward_token_price row = Some rp) \<and> row_apy_trading_fee row = Some 0
        \<and> row_apy_reward row = Some 0 \<and> row_date row - first_date c + 1 \<noteq> 0"
    using Cons.prems(1) by simp
  have "\<exists>rs. simulate_loop a c df rows ?st = Inr rs \<and> length rs = length rows
           \<and> (\<forall>r\<in>set rs.
                 rec_token0_supply_close r = last_token0_supply ?st
               \<and> rec_token1_supply_close r = last_token1_supply ?st
               \<and> rec_token0_debt_close r = last_token0_debt ?st
               \<and> rec_token1_debt_close r = last_token1_debt ?st
               \<and> rec_iloss r = 0
               \<and> rec_profit_value r =
                   p0 * last_token0_supply ?st + p1 * last_token1_supply ?st
                   - (last_token0_debt ?st * p0 + last_token1_debt ?st * p1)
                   - rec_fees_value r - arg_initial_cap a
               \<and> (arg_fee_gas a = 0 \<and> fees_accum ?st = 0 \<longrightarrow> rec_fees_value r = 0))"
    using Cons.prems(2-7) by (intro Cons.IH [OF rows']) simp_all
  then obtain rs where rs: "simulate_loop a c df rows ?st = Inr rs" "length rs = length rows"
    and all: "\<forall>r\<in>set rs.
                 rec_token0_supply_close r = last_token0_supply st
               \<and> rec_token1_supply_close r = last_token1_supply st
               \<and> rec_token0_debt_close r = last_token0_debt st
               \<and> rec_token1_debt_close r = last_token1_debt st
               \<and> rec_iloss r = 0
               \<and> rec_profit_value r =
                   p0 * last_token0_supply st + p1 * last_token1_supply st
                   - (last_token0_debt st * p0 + last_token1_debt st * p1)
                   - rec_fees_value r - arg_initial_cap a
               \<and> (arg_fee_gas a = 0 \<and> fees_accum st + fr = 0 \<longrightarrow> rec_fees_value r = 0)"
    by auto
  have loop: "simulate_loop a c df (row # rows) st = Inr (r # rs)"
    by (simp add: e(1) rs(1))
  show ?case
    unfolding loop using rs(2) e(2-9) all by auto
qed



lemma length2E: "length rs = 2 \<Longrightarrow> (\<And>r1 r2. rs = [r1, r2] \<Longrightarrow> thesis) \<Longrightarrow> thesis"
  by (cases rs; simp) (metis length_0_conv length_Suc_conv Suc_1 Suc_inject)

lemma epoch_open_supplies:
  assumes "epoch a c df row st = Inr (st', r)"
  shows "(rec_token0_supply_open r, rec_token1_supply_open r) =
           iloss_amt (last_token0_supply st * last_token1_supply st)
             (row_token1_price row / row_token0_price row)"
  using assms
  by (auto simp: epoch_def Let_def split: option.splits sum.splits prod.splits if_splits)

lemma add_liquidity_invalid:
  assumes "L \<noteq> 1" and "\<not> 2 \<le> L"
  shows "add_liquidity capital L prices fee_swap fee_gas = Inl ValueError"
  using assms by (cases prices) (simp add: add_liquidity_def Let_def)

lemma rebalance_execute_idle:
  assumes "df \<noteq> []"
    and "\<not> self_threshold self
            < \<bar>row_token1_price (last df) - self_price_anchor self\<bar> / self_price_anchor self"
  shows "RebalanceStrategy_execute self s d df cash =
           Inr (s, d, cash, 0,
                [(''price_delta'',
                  \<bar>row_token1_price (last df) - self_price_anchor self\<bar> / self_price_anchor self)],
                self)"
  using assms by (simp add: RebalanceStrategy_execute_def Let_def)

lemma rebalance_execute_trigger:
  assumes "df \<noteq> []"
    and "self_threshold self
            < \<bar>row_token1_price (last df) - self_price_anchor self\<bar> / self_price_anchor self"
    and "remove_liquidity s d (row_token0_price (last df), row_token1_price (last df))
           (self_amount self) (self_fee_swap self) (self_fee_gas self) = (rs, rd, cash_close, fc)"
  shows "RebalanceStrategy_execute self s d df cash =
           (case add_liquidity cash_close (self_leverage self)
                   (row_token0_price (last df), row_token1_price (last df))
                   (self_fee_swap self) (self_fee_gas self) of
              Inl e \<Rightarrow> Inl e
            | Inr (s', d', fo) \<Rightarrow>
                Inr (s', d', cash, fc + fo,
                     [(''price_delta'',
                       \<bar>row_token1_price (last df) - self_price_anchor self\<bar> / self_price_anchor self)],
                     self\<lparr>self_price_anchor := row_token1_price (last df)\<rparr>))"
  using assms by (simp add: RebalanceStrategy_execute_def Let_def split: sum.splits)

lemma sell_init_ok: "SellRewardsStrategy_init sell_amount = Inr sell_amount"
  by (simp add: SellRewardsStrategy_init_def RewardsStrategy_init_def)

lemma epoch_ratio_denominators:
  assumes "epoch a c df row st = Inr (st', r)"
  shows "rec_debt_ratio r = np_divide (rec_debt_value r) (rec_pool_value r)
       \<and> rec_effective_leverage r = np_divide (rec_pool_value r) (rec_pool_equity r)
       \<and> rec_pool_equity r = rec_pool_value r - rec_debt_value r"
  using assms
  by (auto simp: epoch_def Let_def split: option.splits sum.splits prod.splits if_splits)

lemma add_liquidity_total:
  assumes "L = 1 \<or> 2 \<le> L"
  shows "\<exists>res. add_liquidity capital L prices fee_swap fee_gas = Inr res"
  using assms by (cases prices) (auto simp: add_liquidity_def Let_def)

lemma rebalance_execute_total:
  assumes "df \<noteq> []" and "self_leverage self = 1 \<or> 2 \<le> self_leverage self"
  shows "\<exists>res. RebalanceStrategy_execute self s d df cash = Inr res"
proof -
  have "\<exists>res. add_liquidity capital (self_leverage self) prices fs fg = Inr res"
    for capital prices fs fg
    by (rule add_liquidity_total [OF assms(2)])
  then show ?thesis using assms(1)
    by (auto simp: RebalanceStrategy_execute_def Let_def split: prod.splits sum.splits)
      (metis old.sum.distinct(1) prod_cases3)
qed




lemma spec_rebalance_step_facts:
  assumes "spec_rebalance_step rewards fee_swap fee_gas self supply debt row
             = Some (metadata, trade_event, supply_close, debt_close, self_next)"
  shows "metadata = [(''price_delta'',
                      \<bar>row_token1_price row - self_price_anchor self\<bar> / self_price_anchor self)]
       \<and> (trade_event \<longrightarrow>
            self_threshold self < \<bar>row_token1_price row - self_price_anchor self\<bar> / self_price_anchor self)
       \<and> self_next =
            (if self_threshold self < \<bar>row_token1_price row - self_price_anchor self\<bar> / self_price_anchor self
             then self\<lparr>self_price_anchor := row_token1_price row\<rparr> else self)"
  using assms
  by (auto simp: spec_rebalance_step_def Let_def split: option.splits prod.splits sum.splits if_splits)





subsection \<open>Opening a position\<close>

lemma add_liquidity_1:
  "add_liquidity capital 1 (p0, p1) fee_swap fee_gas =
     Inr ((capital * (1 - fee_swap) / 2 / p0, capital * (1 - fee_swap) / 2 / p1), (0, 0), fee_gas)"
  by (simp add: add_liquidity_def Let_def)

lemma add_liquidity_2:
  "add_liquidity capital 2 (p0, p1) fee_swap fee_gas =
     Inr ((capital * (1 - fee_swap) / p0, capital * (1 - fee_swap) / p1),
          (0, capital * (1 - fee_swap) / p1), 4 * fee_gas)"
  by (simp add: add_liquidity_def Let_def)

lemma add_liquidity_gt2:
  assumes "2 < L"
  shows "add_liquidity capital L (p0, p1) fee_swap fee_gas =
     Inr (((1 / 2) * L * (capital * (1 - fee_swap)) / p0, (1 / 2) * L * (capital * (1 - fee_swap)) / p1),
          (capital * (1 - fee_swap) * (1 / (L / (L - 2) + 1)) * (L - 1) / p0,
           capital * (1 - fee_swap) * (1 - 1 / (L / (L - 2) + 1)) * (L - 1) / p1),
          6 * fee_gas)"
  using assms by (simp add: add_liquidity_def Let_def)

text \<open>
  C4. For capital > 0, prices p0, p1 > 0 and c = capital * (1 - fee_swap), opening a
  position returns: at leverage 1 an even split of c, no debt and fee fee_gas; at
  leverage 2 supply (c/p0, c/p1), debt (0, c/p1) and fee 4 * fee_gas; at leverage L > 2
  a supply worth L * c split evenly, a debt worth (L - 1) * c of which the fraction
  1 / (L / (L - 2) + 1) is in token0 and the rest in token1, and fee 6 * fee_gas. At
  leverage 3 on 100 of principal without swap fee the debt is worth 50 in token0 and 150
  in token1.
\<close>

theorem open_position_branches:
  assumes "0 < capital" and "0 < p0" and "0 < p1"
  shows "add_liquidity capital 1 (p0, p1) fee_swap fee_gas =
           Inr ((capital * (1 - fee_swap) / 2 / p0, capital * (1 - fee_swap) / 2 / p1), (0, 0), fee_gas)
       \<and> add_liquidity capital 2 (p0, p1) fee_swap fee_gas =
           Inr ((capital * (1 - fee_swap) / p0, capital * (1 - fee_swap) / p1),
                (0, capital * (1 - fee_swap) / p1), 4 * fee_gas)
       \<and> (2 < L \<longrightarrow>
            (\<exists>s0 s1 d0 d1.
               add_liquidity capital L (p0, p1) fee_swap fee_gas = Inr ((s0, s1), (d0, d1), 6 * fee_gas)
             \<and> s0 * p0 = L * (capital * (1 - fee_swap)) / 2
             \<and> s1 * p1 = L * (capital * (1 - fee_swap)) / 2
             \<and> d0 * p0 = (L - 1) * (capital * (1 - fee_swap)) * (1 / (L / (L - 2) + 1))
             \<and> d1 * p1 = (L - 1) * (capital * (1 - fee_swap)) * (1 - 1 / (L / (L - 2) + 1))
             \<and> d0 * p0 + d1 * p1 = (L - 1) * (capital * (1 - fee_swap))))
       \<and> (\<exists>s d0 d1. add_liquidity 100 3 (p0, p1) 0 fee_gas = Inr (s, (d0, d1), 6 * fee_gas)
             \<and> d0 * p0 = 50 \<and> d1 * p1 = 150)"
proof (intro conjI impI)
  show "add_liquidity capital 1 (p0, p1) fee_swap fee_gas =
          Inr ((capital * (1 - fee_swap) / 2 / p0, capital * (1 - fee_swap) / 2 / p1), (0, 0), fee_gas)"
    by (rule add_liquidity_1)
  show "add_liquidity capital 2 (p0, p1) fee_swap fee_gas =
          Inr ((capital * (1 - fee_swap) / p0, capital * (1 - fee_swap) / p1),
               (0, capital * (1 - fee_swap) / p1), 4 * fee_gas)"
    by (rule add_liquidity_2)
next
  assume L: "2 < L"
  let ?c = "capital * (1 - fee_swap)"
  let ?f = "1 / (L / (L - 2) + 1)"
  have p: "p0 \<noteq> 0" "p1 \<noteq> 0" using assms by simp_all
  have "?c * ?f * (L - 1) + ?c * (1 - ?f) * (L - 1) = (L - 1) * ?c"
    by (simp add: algebra_simps)
  then show "\<exists>s0 s1 d0 d1.
               add_liquidity capital L (p0, p1) fee_swap fee_gas = Inr ((s0, s1), (d0, d1), 6 * fee_gas)
             \<and> s0 * p0 = L * ?c / 2
             \<and> s1 * p1 = L * ?c / 2
             \<and> d0 * p0 = (L - 1) * ?c * ?f
             \<and> d1 * p1 = (L - 1) * ?c * (1 - ?f)
             \<and> d0 * p0 + d1 * p1 = (L - 1) * ?c"
    using p by (simp add: add_liquidity_gt2 [OF L] mult.commute)
next
  have p: "p0 \<noteq> 0" "p1 \<noteq> 0" using assms by simp_all
  show "\<exists>s d0 d1. add_liquidity 100 3 (p0, p1) 0 fee_gas = Inr (s, (d0, d1), 6 * fee_gas)
             \<and> d0 * p0 = 50 \<and> d1 * p1 = 150"
    using p by (simp add: add_liquidity_gt2)
qed

theorem open_position_branches_witness:
  "add_liquidity 100 1 (1, 1 / 10) 0 7 = Inr ((50, 500), (0, 0), 7)
   \<and> add_liquidity 100 2 (1, 1 / 10) 0 7 = Inr ((100, 1000), (0, 1000), 28)
   \<and> (\<exists>s0 s1 d0 d1. add_liquidity 100 3 (1, 1 / 10) 0 7 = Inr ((s0, s1), (d0, d1), 42)
        \<and> s0 * 1 = 150 \<and> s1 * (1 / 10) = 150 \<and> d0 * 1 = 50 \<and> d1 * (1 / 10) = 150)"
  using open_position_branches [of 100 1 "1 / 10" 0 7 3] by simp

subsection \<open>A run without price change\<close>

text \<open>
  C2 (as amended). Over a non-empty table with constant positive prices, zero trading-fee
  and reward yields (from the table or from the overrides), a positive reward-token price,
  no row dated before the first one, zero borrow rates given as the run's arguments, the
  passive trading strategy, a position opened at the start with a supported leverage and
  a swap fee in [0, 1): the run returns one record per row; in every record the closing
  supplies and debts are those of the opening position, \<open>iloss\<close> is 0 and
  \<open>profit_value\<close> is minus the swap fee on the capital minus the accumulated gas fees,
  which is 0 when both the swap fee and the gas fee are 0.
\<close>

theorem no_price_change_fixed_point:
  assumes ne: "df \<noteq> []"
    and rows: "\<forall>row\<in>set (map (fill_missing a) df).
        row_token0_price row = p0 \<and> row_token1_price row = p1
        \<and> row_apy_trading_fee row = Some 0 \<and> row_apy_reward row = Some 0
        \<and> (\<exists>rp>0. row_reward_token_price row = Some rp)
        \<and> row_date (hd df) \<le> row_date row"
    and borrow: "arg_apy_borrow_token0 a = Some 0" "arg_apy_borrow_token1 a = Some 0"
    and strat: "arg_strategy_cls a = HODLStrategy"
    and opn: "arg_open_on_start a"
    and cap: "0 < arg_initial_cap a"
    and fee: "0 \<le> arg_fee_swap a" "arg_fee_swap a < 1"
    and lev: "arg_leverage a = 1 \<or> 2 \<le> arg_leverage a"
    and pos: "0 < p0" "0 < p1"
  shows "\<exists>s0 s1 d0 d1 f rs.
           add_liquidity (arg_initial_cap a) (arg_leverage a) (p0, p1) (arg_fee_swap a) (arg_fee_gas a)
             = Inr ((s0, s1), (d0, d1), f)
         \<and> simulate df a = Inr rs \<and> length rs = length df
         \<and> (\<forall>r\<in>set rs.
               rec_token0_supply_close r = s0 \<and> rec_token1_supply_close r = s1
             \<and> rec_token0_debt_close r = d0 \<and> rec_token1_debt_close r = d1
             \<and> rec_iloss r = 0
             \<and> rec_profit_value r = - (arg_initial_cap a * arg_fee_swap a) - rec_fees_value r
             \<and> (arg_fee_swap a = 0 \<and> arg_fee_gas a = 0 \<longrightarrow> rec_profit_value r = 0))"
proof -
  let ?df = "map (fill_missing a) df"
  obtain row0 rest where df: "?df = row0 # rest" using ne by (cases df) auto
  have hd: "row_date (hd df) = row_date row0"
    using df ne by (cases df) (auto simp: fill_missing_def)
  have row0: "row_token0_price row0 = p0" "row_token1_price row0 = p1"
    using rows df by auto
  have c0: "0 \<le> arg_initial_cap a * (1 - arg_fee_swap a)" using cap fee by simp
  obtain s0 s1 d0 d1 f where open_ok:
    "add_liquidity (arg_initial_cap a) (arg_leverage a) (p0, p1) (arg_fee_swap a) (arg_fee_gas a)
       = Inr ((s0, s1), (d0, d1), f)"
    and s: "0 \<le> s0" "0 \<le> s1" "s0 * p0 = s1 * p1"
    and eq: "p0 * s0 + p1 * s1 - (d0 * p0 + d1 * p1) = arg_initial_cap a * (1 - arg_fee_swap a)"
    and f0: "arg_fee_gas a = 0 \<longrightarrow> f = 0"
    using add_liquidity_balanced [OF c0 pos lev, of "arg_fee_gas a"]
    by (elim exE conjE) (rule that; assumption)
  let ?c = "\<lparr>ratio_initial = p1 / p0, token0_supply_initial = s0, token1_supply_initial = s1,
             first_date = row_date row0\<rparr>"
  let ?st = "\<lparr>last_token0_supply = s0, last_token1_supply = s1, last_token0_debt = d0,
              last_token1_debt = d1, cash_accum = 0, fees_accum = f, rewards_accum = 0,
              strategy_cls = HODLStrategy\<rparr>"
  have init: "simulate_init a ?df = Inr (?c, ?st)"
    by (simp add: simulate_init_def df row0 opn open_ok strat)
  have rows': "\<forall>row\<in>set ?df. row_token0_price row = p0 \<and> row_token1_price row = p1
        \<and> (\<exists>rp. row_reward_token_price row = Some rp) \<and> row_apy_trading_fee row = Some 0
        \<and> row_apy_reward row = Some 0 \<and> row_date row - first_date ?c + 1 \<noteq> 0"
  proof
    fix row assume "row \<in> set ?df"
    with rows have r: "row_token0_price row = p0" "row_token1_price row = p1"
      "row_apy_trading_fee row = Some 0" "row_apy_reward row = Some 0"
      "\<exists>rp>0. row_reward_token_price row = Some rp" "row_date (hd df) \<le> row_date row"
      by blast+
    from r(6) hd have "row_date row - first_date ?c + 1 \<noteq> 0" by simp
    with r show "row_token0_price row = p0 \<and> row_token1_price row = p1
        \<and> (\<exists>rp. row_reward_token_price row = Some rp) \<and> row_apy_trading_fee row = Some 0
        \<and> row_apy_reward row = Some 0 \<and> row_date row - first_date ?c + 1 \<noteq> 0"
      by blast
  qed
  have "\<exists>rs. simulate_loop a ?c ?df ?df ?st = Inr rs \<and> length rs = length ?df
           \<and> (\<forall>r\<in>set rs.
                 rec_token0_supply_close r = last_token0_supply ?st
               \<and> rec_token1_supply_close r = last_token1_supply ?st
               \<and> rec_token0_debt_close r = last_token0_debt ?st
               \<and> rec_token1_debt_close r = last_token1_debt ?st
               \<and> rec_iloss r = 0
               \<and> rec_profit_value r =
                   p0 * last_token0_supply ?st + p1 * last_token1_supply ?st
                   - (last_token0_debt ?st * p0 + last_token1_debt ?st * p1)
                   - rec_fees_value r - arg_initial_cap a
               \<and> (arg_fee_gas a = 0 \<and> fees_accum ?st = 0 \<longrightarrow> rec_fees_value r = 0))"
    using s by (intro simulate_loop_idle [OF rows' borrow _ _ _ _ _ _ pos]) simp_all
  then obtain rs where rs: "simulate_loop a ?c ?df ?df ?st = Inr rs" "length rs = length ?df"
    and all: "\<forall>r\<in>set rs.
                 rec_token0_supply_close r = s0
               \<and> rec_token1_supply_close r = s1
               \<and> rec_token0_debt_close r = d0
               \<and> rec_token1_debt_close r = d1
               \<and> rec_iloss r = 0
               \<and> rec_profit_value r =
                   p0 * s0 + p1 * s1 - (d0 * p0 + d1 * p1) - rec_fees_value r - arg_initial_cap a
               \<and> (arg_fee_gas a = 0 \<and> f = 0 \<longrightarrow> rec_fees_value r = 0)"
    by auto
  have sim: "simulate df a = Inr rs"
    by (simp add: simulate_def init rs(1))
  have "\<forall>r\<in>set rs.
               rec_token0_supply_close r = s0 \<and> rec_token1_supply_close r = s1
             \<and> rec_token0_debt_close r = d0 \<and> rec_token1_debt_close r = d1
             \<and> rec_iloss r = 0
             \<and> rec_profit_value r = - (arg_initial_cap a * arg_fee_swap a) - rec_fees_value r
             \<and> (arg_fee_swap a = 0 \<and> arg_fee_gas a = 0 \<longrightarrow> rec_profit_value r = 0)"
  proof
    fix r assume "r \<in> set rs"
    with all have r: "rec_token0_supply_close r = s0" "rec_token1_supply_close r = s1"
      "rec_token0_debt_close r = d0" "rec_token1_debt_close r = d1" "rec_iloss r = 0"
      "rec_profit_value r =
         p0 * s0 + p1 * s1 - (d0 * p0 + d1 * p1) - rec_fees_value r - arg_initial_cap a"
      "arg_fee_gas a = 0 \<and> f = 0 \<longrightarrow> rec_fees_value r = 0"
      by blast+
    have p: "rec_profit_value r = - (arg_initial_cap a * arg_fee_swap a) - rec_fees_value r"
      unfolding r(6) eq by (simp add: algebra_simps)
    have z: "arg_fee_swap a = 0 \<and> arg_fee_gas a = 0 \<longrightarrow> rec_profit_value r = 0"
      using p r(7) f0 by simp
    show "rec_token0_supply_close r = s0 \<and> rec_token1_supply_close r = s1
             \<and> rec_token0_debt_close r = d0 \<and> rec_token1_debt_close r = d1
             \<and> rec_iloss r = 0
             \<and> rec_profit_value r = - (arg_initial_cap a * arg_fee_swap a) - rec_fees_value r
             \<and> (arg_fee_swap a = 0 \<and> arg_fee_gas a = 0 \<longrightarrow> rec_profit_value r = 0)"
      using r(1-5) p z by blast
  qed
  with open_ok sim rs(2) show ?thesis by auto
qed


theorem no_price_change_fixed_point_witness:
  "map_sum id (map rec_profit_value) (simulate ex_flat_table (ex_hodl_args 1 0)) = Inr [0, 0]
   \<and> map_sum id (map rec_iloss) (simulate ex_flat_table (ex_hodl_args 1 0)) = Inr [0, 0]
   \<and> map_sum id (map rec_token0_supply_close) (simulate ex_flat_table (ex_hodl_args 1 0)) = Inr [100, 100]"
proof -
  have ne: "ex_flat_table \<noteq> []" by (simp add: ex_flat_table_def)
  have rows: "\<forall>row\<in>set (map (fill_missing (ex_hodl_args 1 0)) ex_flat_table).
        row_token0_price row = 1 \<and> row_token1_price row = 1
        \<and> row_apy_trading_fee row = Some 0 \<and> row_apy_reward row = Some 0
        \<and> (\<exists>rp>0. row_reward_token_price row = Some rp)
        \<and> row_date (hd ex_flat_table) \<le> row_date row"
    by (simp add: ex_flat_table_def ex_hodl_args_def fill_missing_def fill_col_def)
  have a: "add_liquidity (arg_initial_cap (ex_hodl_args 1 0)) (arg_leverage (ex_hodl_args 1 0)) (1, 1)
             (arg_fee_swap (ex_hodl_args 1 0)) (arg_fee_gas (ex_hodl_args 1 0)) = Inr ((100, 100), (0, 0), 0)"
    by (simp add: add_liquidity_def ex_hodl_args_def)
  have h: "arg_apy_borrow_token0 (ex_hodl_args 1 0) = Some 0" "arg_apy_borrow_token1 (ex_hodl_args 1 0) = Some 0"
    "arg_strategy_cls (ex_hodl_args 1 0) = HODLStrategy" "arg_open_on_start (ex_hodl_args 1 0)"
    "0 < arg_initial_cap (ex_hodl_args 1 0)" "0 \<le> arg_fee_swap (ex_hodl_args 1 0)"
    "arg_fee_swap (ex_hodl_args 1 0) < 1"
    "arg_leverage (ex_hodl_args 1 0) = 1 \<or> 2 \<le> arg_leverage (ex_hodl_args 1 0)"
    "arg_fee_swap (ex_hodl_args 1 0) = 0 \<and> arg_fee_gas (ex_hodl_args 1 0) = 0"
    by (simp_all add: ex_hodl_args_def)
  from no_price_change_fixed_point [OF ne rows h(1-8) zero_less_one zero_less_one]
  obtain s0 s1 d0 d1 f rs where o: 
    "add_liquidity (arg_initial_cap (ex_hodl_args 1 0)) (arg_leverage (ex_hodl_args 1 0)) (1, 1)
             (arg_fee_swap (ex_hodl_args 1 0)) (arg_fee_gas (ex_hodl_args 1 0)) = Inr ((s0, s1), (d0, d1), f)"
    "simulate ex_flat_table (ex_hodl_args 1 0) = Inr rs" "length rs = length ex_flat_table"
    and all: "\<forall>r\<in>set rs. rec_token0_supply_close r = s0 \<and> rec_token1_supply_close r = s1
             \<and> rec_token0_debt_close r = d0 \<and> rec_token1_debt_close r = d1
             \<and> rec_iloss r = 0
             \<and> rec_profit_value r = - (arg_initial_cap (ex_hodl_args 1 0) * arg_fee_swap (ex_hodl_args 1 0)) - rec_fees_value r
             \<and> (arg_fee_swap (ex_hodl_args 1 0) = 0 \<and> arg_fee_gas (ex_hodl_args 1 0) = 0 \<longrightarrow> rec_profit_value r = 0)"
    by (elim exE conjE) (rule that; simp)
  from o(1) a have s0: "s0 = 100" by simp
  from o(3) have "length rs = 2" by (simp add: ex_flat_table_def)
  then obtain r1 r2 where rs: "rs = [r1, r2]" by (rule length2E)
  from all h(9) have "rec_profit_value r1 = 0" "rec_profit_value r2 = 0"
    "rec_iloss r1 = 0" "rec_iloss r2 = 0"
    "rec_token0_supply_close r1 = 100" "rec_token0_supply_close r2 = 100"
    unfolding rs s0 by simp_all
  then show ?thesis unfolding o(2) rs by simp
qed

text \<open>
  The claim as stated promises a profit of 0 whatever the fees: with a swap fee of 1
  percent on 200 of capital the profit is -2 in both epochs.
\<close>

theorem no_price_change_profit_counterexample: 
  "map_sum id (map rec_profit_value) (simulate ex_flat_table (ex_hodl_args 1 (1 / 100))) = Inr [- 2, - 2]"
  by (simp add: ex_flat_table_def ex_hodl_args_def run_simps)

subsection \<open>Impermanent-loss repricing\<close>

text \<open>
  C1 (as amended). For k > 0 and r > 0 the repricing function returns
  (sqrt (k * r), sqrt (k / r)): token0 holds sqrt (k * r) and token1 holds sqrt (k / r).
  The product of the two is k and their quotient token0 / token1 is r, the price of token1
  in units of token0. Every epoch applies it to the product of the previous closing
  supplies and the ratio p1 / p0 of the row, and records the pair as the opening supplies.
\<close>

theorem iloss_repricing:
  assumes "0 < k" and "0 < r"
  shows "iloss_amt k r = (sqrt (k * r), sqrt (k / r))
       \<and> fst (iloss_amt k r) * snd (iloss_amt k r) = k
       \<and> fst (iloss_amt k r) / snd (iloss_amt k r) = r
       \<and> (\<forall>a c df row st st' rec.
             epoch a c df row st = Inr (st', rec)
           \<and> last_token0_supply st * last_token1_supply st = k
           \<and> row_token1_price row / row_token0_price row = r
           \<longrightarrow> rec_token0_supply_open rec = sqrt (k * r)
             \<and> rec_token1_supply_open rec = sqrt (k / r))"
proof -
  have 1: "sqrt (k * r) * sqrt (k / r) = k"
    using assms by (simp add: real_sqrt_mult [symmetric])
  have 2: "sqrt (k * r) / sqrt (k / r) = r"
    using assms by (simp add: real_sqrt_divide [symmetric])
  have 3: "rec_token0_supply_open rec = sqrt (k * r) \<and> rec_token1_supply_open rec = sqrt (k / r)"
    if "epoch a c df row st = Inr (st', rec)"
      "last_token0_supply st * last_token1_supply st = k"
      "row_token1_price row / row_token0_price row = r"
    for a c df row st st' rec
    using epoch_open_supplies [OF that(1)] that(2,3) by (simp add: iloss_amt_def Let_def)
  have 4: "\<forall>a c df row st st' rec.
             epoch a c df row st = Inr (st', rec)
           \<and> last_token0_supply st * last_token1_supply st = k
           \<and> row_token1_price row / row_token0_price row = r
           \<longrightarrow> rec_token0_supply_open rec = sqrt (k * r)
             \<and> rec_token1_supply_open rec = sqrt (k / r)"
    using 3 by blast
  have 5: "iloss_amt k r = (sqrt (k * r), sqrt (k / r))"
    by (simp add: iloss_amt_def Let_def)
  show ?thesis unfolding 5 fst_conv snd_conv using 1 2 4 by blast
qed

theorem iloss_repricing_witness:
  "iloss_amt 10000 4 = (200, 50)
   \<and> map_sum id (rec_token0_supply_open \<circ> snd)
       (epoch (ex_hodl_args 1 0) ex_consts ex_jump_table (last ex_jump_table) (ex_state HODLStrategy))
     = Inr 200
   \<and> map_sum id (rec_token1_supply_open \<circ> snd)
       (epoch (ex_hodl_args 1 0) ex_consts ex_jump_table (last ex_jump_table) (ex_state HODLStrategy))
     = Inr 50"
proof -
  let ?e = "epoch (ex_hodl_args 1 0) ex_consts ex_jump_table (last ex_jump_table) (ex_state HODLStrategy)"
  have pos: "(0::real) < 10000" "(0::real) < 4" by simp_all
  have "\<exists>st' r. ?e = Inr (st', r)"
    by (simp add: ex_jump_table_def ex_hodl_args_def ex_consts_def ex_state_def run_simps)
  then obtain st' r where e: "?e = Inr (st', r)" by blast
  have k: "last_token0_supply (ex_state HODLStrategy) * last_token1_supply (ex_state HODLStrategy) = 10000"
    "row_token1_price (last ex_jump_table) / row_token0_price (last ex_jump_table) = 4"
    by (simp_all add: ex_state_def ex_jump_table_def)
  from iloss_repricing [OF pos] e k
  have "iloss_amt 10000 4 = (sqrt (10000 * 4), sqrt (10000 / 4))"
    "rec_token0_supply_open r = sqrt (10000 * 4)" "rec_token1_supply_open r = sqrt (10000 / 4)"
    by blast+
  then show ?thesis unfolding e by (simp add: sqrt_values)
qed

text \<open>
  The order stated in the claim, token0 = sqrt (k / r) and token1 = sqrt (k * r), is the
  reverse of what the function returns. For the balanced pool of 50 token0 and 500 token1
  at prices 1 and 0.1 (k = 25000, r = 0.1) the function returns (50, 500), the pool itself;
  the pair of the claim is (500, 50).
\<close>

theorem iloss_repricing_order_counterexample:
  "iloss_amt 25000 (1 / 10) = (50, 500)
   \<and> (sqrt (25000 / (1 / 10)), sqrt (25000 * (1 / 10))) = (500, 50)"
proof -
  have "sqrt 2500 = 50" "sqrt 250000 = 500"
    using real_sqrt_abs2 [of 50] real_sqrt_abs2 [of 500] by simp_all
  then show ?thesis by (simp add: iloss_amt_def Let_def)
qed

subsection \<open>Borrow rates\<close>

text \<open>
  C3. The claim has each epoch compound the debt at the borrow rate of that epoch's row.
  The loop reads the rates from the arguments of the run and never from the row: over a
  table whose borrow columns hold 0.1 and 0.2, a run given the rates 0 leaves the token1
  debt of 200 unchanged in both epochs, and a run given no rates raises \<open>TypeError\<close>.
\<close>

theorem borrow_apy_row_ignored:
  "map_sum id (map rec_token1_debt_close) (simulate ex_borrow_table (ex_hodl_args 2 0)) = Inr [200, 200]
   \<and> simulate ex_borrow_table
        ((ex_hodl_args 2 0)\<lparr>arg_apy_borrow_token0 := None, arg_apy_borrow_token1 := None\<rparr>) = Inl TypeError
   \<and> 200 * exp ((1 / 10) / 365.25) \<noteq> (200 :: real)"
  by (simp add: ex_borrow_table_def ex_hodl_args_def run_simps)

subsection \<open>Unsupported leverage\<close>

text \<open>
  C5. A leverage that is neither 1 nor at least 2 makes opening a position fail with
  \<open>ValueError\<close>, whatever the other arguments; a run over a table with at least one row
  that opens its position at the start fails with that error in the part before the loop,
  so the run returns the error and no record.
\<close>

theorem invalid_leverage_fails:
  assumes "L \<noteq> 1" and "\<not> 2 \<le> L"
  shows "add_liquidity capital L prices fee_swap fee_gas = Inl ValueError
       \<and> (\<forall>df a. df \<noteq> [] \<and> arg_open_on_start a \<and> arg_leverage a = L
            \<longrightarrow> simulate_init a (map (fill_missing a) df) = Inl ValueError
              \<and> simulate df a = Inl ValueError)"
proof -
  have "simulate_init a (map (fill_missing a) df) = Inl ValueError \<and> simulate df a = Inl ValueError"
    if ne: "df \<noteq> []" and opn: "arg_open_on_start a" "arg_leverage a = L" for df a
  proof -
    obtain row0 rest where df: "map (fill_missing a) df = row0 # rest"
      using ne by (cases df) auto
    have i: "simulate_init a (map (fill_missing a) df) = Inl ValueError"
      using opn by (simp add: simulate_init_def df add_liquidity_invalid [OF assms])
    then show ?thesis by (simp add: simulate_def)
  qed
  then show ?thesis using add_liquidity_invalid [OF assms] by blast
qed

theorem invalid_leverage_fails_witness:
  "add_liquidity 200 (3 / 2) (1, 1) 0 0 = Inl ValueError
   \<and> add_liquidity 200 0 (1, 1) 0 0 = Inl ValueError
   \<and> simulate_init (ex_hodl_args (3 / 2) 0) (map (fill_missing (ex_hodl_args (3 / 2) 0)) ex_flat_table) = Inl ValueError
   \<and> simulate ex_flat_table (ex_hodl_args (3 / 2) 0) = Inl ValueError"
proof -
  have h: "(3 / 2 :: real) \<noteq> 1" "\<not> 2 \<le> (3 / 2 :: real)" "(0 :: real) \<noteq> 1" "\<not> 2 \<le> (0 :: real)"
    by simp_all
  have e: "ex_flat_table \<noteq> [] \<and> arg_open_on_start (ex_hodl_args (3 / 2) 0)
           \<and> arg_leverage (ex_hodl_args (3 / 2) 0) = 3 / 2"
    by (simp add: ex_flat_table_def ex_hodl_args_def)
  from invalid_leverage_fails [OF h(1,2), of 200 "(1, 1)" 0 0] invalid_leverage_fails [OF h(3,4), of 200 "(1, 1)" 0 0] e
  show ?thesis by blast
qed

subsection \<open>Threshold rebalancing\<close>




subsection \<open>Zero pool equity\<close>

text \<open>
  C7 (as amended). An epoch whose inputs are there (the three columns read from the row,
  the two borrow rates, a trading strategy that is passive or rebalances at a supported
  leverage with a non-zero anchor, positive prices, a non-zero reward price, capital and
  leverage, a row not dated before the first) returns its record whatever the pool equity
  is. effective_leverage is pool_value / pool_equity and debt_ratio is
  debt_value / (debt_value + pool_equity), both by numpy's division. When pool_equity is
  zero, effective_leverage is an infinity with the sign of pool_value, or nan when
  pool_value is zero as well; the divisor of debt_ratio is then pool_value, so debt_ratio
  is the finite number 1, and nan only when pool_value is zero as well.
\<close>

theorem zero_pool_equity_ratios:
  assumes cols: "row_reward_token_price row = Some rp" "row_apy_trading_fee row = Some fa"
      "row_apy_reward row = Some ra"
    and borrow: "arg_apy_borrow_token0 a = Some b0" "arg_apy_borrow_token1 a = Some b1"
    and strat: "strategy_cls st = HODLStrategy
        \<or> (\<exists>self. strategy_cls st = RebalanceStrategy self \<and> self_price_anchor self \<noteq> 0
              \<and> (self_leverage self = 1 \<or> 2 \<le> self_leverage self) \<and> row \<in> set df)"
    and dom: "0 < row_token0_price row" "0 < row_token1_price row" "rp \<noteq> 0"
      "0 < arg_initial_cap a" "arg_leverage a \<noteq> 0" "0 < ratio_initial c"
      "0 \<le> last_token0_supply st * last_token1_supply st"
    and days: "first_date c \<le> row_date row"
  shows "\<exists>st' r. epoch a c df row st = Inr (st', r)
       \<and> rec_pool_equity r = rec_pool_value r - rec_debt_value r
       \<and> rec_effective_leverage r = np_divide (rec_pool_value r) (rec_pool_equity r)
       \<and> rec_debt_ratio r = np_divide (rec_debt_value r) (rec_debt_value r + rec_pool_equity r)
       \<and> (rec_pool_equity r = 0 \<longrightarrow>
            rec_effective_leverage r
              = (if rec_pool_value r = 0 then NaN else if 0 < rec_pool_value r then PosInf else NegInf)
          \<and> rec_debt_ratio r = (if rec_pool_value r = 0 then NaN else Finite 1))"
proof -
  let ?dfi = "filter (\<lambda>x. row_date x \<le> row_date row) df"
  have tr: "\<exists>res. trading_execute (strategy_cls st) s d ?dfi cash = Inr res" for s d cash
  proof -
    from strat show ?thesis
    proof
      assume "strategy_cls st = HODLStrategy"
      then show ?thesis by simp
    next
      assume "\<exists>self. strategy_cls st = RebalanceStrategy self \<and> self_price_anchor self \<noteq> 0
              \<and> (self_leverage self = 1 \<or> 2 \<le> self_leverage self) \<and> row \<in> set df"
      then obtain self where s: "strategy_cls st = RebalanceStrategy self"
        and l: "self_leverage self = 1 \<or> 2 \<le> self_leverage self" and m: "row \<in> set df"
        by blast
      from m have ne: "?dfi \<noteq> []" by (auto simp: filter_empty_conv)
      from rebalance_execute_total [OF ne l, of s d cash]
      show ?thesis by (auto simp: s split: prod.splits)
    qed
  qed
  have d: "row_date row - first_date c + 1 \<noteq> 0" using days by simp
  have tr': "trading_execute (strategy_cls st) s d ?dfi cash \<noteq> Inl e" for s d cash e
    using tr [of s d cash] by auto
  have "\<exists>st' r. epoch a c df row st = Inr (st', r)"
    using d by (simp add: epoch_def Let_def cols borrow tr' split: prod.splits sum.splits)
  then obtain st' r where e: "epoch a c df row st = Inr (st', r)" by blast
  from epoch_ratio_denominators [OF e]
  have 1: "rec_debt_ratio r = np_divide (rec_debt_value r) (rec_pool_value r)"
    and 2: "rec_effective_leverage r = np_divide (rec_pool_value r) (rec_pool_equity r)"
    and 3: "rec_pool_equity r = rec_pool_value r - rec_debt_value r"
    by blast+
  show ?thesis
    using e 1 2 3 by (auto simp: np_divide_def)
qed

theorem zero_pool_equity_ratios_witness:
  "map_sum id (rec_pool_equity \<circ> snd)
      (epoch (ex_hodl_args 2 0) ex_levered_consts ex_jump_table (last ex_jump_table) ex_levered_state)
     = Inr 0
   \<and> map_sum id (rec_effective_leverage \<circ> snd)
      (epoch (ex_hodl_args 2 0) ex_levered_consts ex_jump_table (last ex_jump_table) ex_levered_state)
     = Inr PosInf
   \<and> map_sum id (rec_debt_ratio \<circ> snd)
      (epoch (ex_hodl_args 2 0) ex_levered_consts ex_jump_table (last ex_jump_table) ex_levered_state)
     = Inr (Finite 1)"
proof -
  let ?a = "ex_hodl_args 2 0"
  let ?row = "last ex_jump_table"
  let ?e = "epoch ?a ex_levered_consts ex_jump_table ?row ex_levered_state"
  have cols: "row_reward_token_price ?row = Some 1" "row_apy_trading_fee ?row = Some 0"
    "row_apy_reward ?row = Some 0"
    by (simp_all add: ex_jump_table_def)
  have borrow: "arg_apy_borrow_token0 ?a = Some 0" "arg_apy_borrow_token1 ?a = Some 0"
    by (simp_all add: ex_hodl_args_def)
  have strat: "strategy_cls ex_levered_state = HODLStrategy
        \<or> (\<exists>self. strategy_cls ex_levered_state = RebalanceStrategy self \<and> self_price_anchor self \<noteq> 0
              \<and> (self_leverage self = 1 \<or> 2 \<le> self_leverage self) \<and> ?row \<in> set ex_jump_table)"
    by (simp add: ex_levered_state_def)
  have dom: "0 < row_token0_price ?row" "0 < row_token1_price ?row" "(1::real) \<noteq> 0"
    "0 < arg_initial_cap ?a" "arg_leverage ?a \<noteq> 0" "0 < ratio_initial ex_levered_consts"
    "0 \<le> last_token0_supply ex_levered_state * last_token1_supply ex_levered_state"
    "first_date ex_levered_consts \<le> row_date ?row"
    by (simp_all add: ex_jump_table_def ex_hodl_args_def ex_levered_consts_def ex_levered_state_def)
  from zero_pool_equity_ratios [OF cols borrow strat dom]
  obtain st' r where e: "?e = Inr (st', r)"
    and z: "rec_pool_equity r = 0 \<longrightarrow>
            rec_effective_leverage r
              = (if rec_pool_value r = 0 then NaN else if 0 < rec_pool_value r then PosInf else NegInf)
          \<and> rec_debt_ratio r = (if rec_pool_value r = 0 then NaN else Finite 1)"
    by blast
  have v: "map_sum id (rec_pool_equity \<circ> snd) ?e = Inr 0"
    "map_sum id (rec_pool_value \<circ> snd) ?e = Inr 800"
    by (simp_all add: ex_jump_table_def ex_hodl_args_def ex_levered_consts_def ex_levered_state_def
          run_simps)
  then have "rec_pool_equity r = 0" "rec_pool_value r = 800" unfolding e by simp_all
  with z have "rec_effective_leverage r = PosInf" "rec_debt_ratio r = Finite 1" by simp_all
  with \<open>rec_pool_equity r = 0\<close> show ?thesis unfolding e by simp
qed

text \<open>
  The claim as stated puts a sentinel into both fields. In the run at leverage 2 over the
  table whose token1 price goes from 1 to 4, the second epoch has a pool worth 800 and a
  debt worth 800: pool_equity is 0, effective_leverage is infinite and debt_ratio is 1.
\<close>

theorem zero_pool_equity_debt_ratio_counterexample:
  "map_sum id (map rec_pool_equity) (simulate ex_jump_table (ex_hodl_args 2 0)) = Inr [200, 0]
   \<and> map_sum id (map rec_debt_ratio) (simulate ex_jump_table (ex_hodl_args 2 0))
       = Inr [Finite (1 / 2), Finite 1]
   \<and> map_sum id (map rec_effective_leverage) (simulate ex_jump_table (ex_hodl_args 2 0))
       = Inr [Finite 2, PosInf]"
  by (simp add: ex_jump_table_def ex_hodl_args_def run_simps)

subsection \<open>Missing input columns\<close>

text \<open>
  C8 (as amended). Take a run over a table with at least one row and positive prices that
  opens its position at the start with a supported leverage. The part before the loop
  succeeds, whatever columns the table has. If the reward token price, the trading-fee
  yield or the reward yield is absent from the table and no override is given, the first
  pass of the loop raises \<open>KeyError\<close>; if a borrow rate is absent from the table and not
  given as an argument, while the three other columns are there with a non-zero reward
  price, the first pass of the loop raises \<open>TypeError\<close>. In both cases the run ends with
  that error and returns no record.
\<close>

theorem missing_input_fails_in_first_epoch:
  assumes ne: "df \<noteq> []"
    and opn: "arg_open_on_start a"
    and lev: "arg_leverage a = 1 \<or> 2 \<le> arg_leverage a"
    and pos: "\<forall>row\<in>set df. 0 < row_token0_price row \<and> 0 < row_token1_price row"
  shows "\<exists>c st. simulate_init a (map (fill_missing a) df) = Inr (c, st)
       \<and> ((\<forall>row\<in>set df. row_reward_token_price row = None) \<and> arg_reward_token_price a = None
          \<or> (\<forall>row\<in>set df. row_apy_trading_fee row = None) \<and> arg_apy_trading_fee a = None
          \<or> (\<forall>row\<in>set df. row_apy_reward row = None) \<and> arg_apy_reward a = None
          \<longrightarrow> epoch a c (map (fill_missing a) df) (hd (map (fill_missing a) df)) st = Inl KeyError
            \<and> simulate df a = Inl KeyError)
       \<and> (((\<forall>row\<in>set df. row_apy_borrow_token0 row = None) \<and> arg_apy_borrow_token0 a = None
            \<or> (\<forall>row\<in>set df. row_apy_borrow_token1 row = None) \<and> arg_apy_borrow_token1 a = None)
           \<and> (\<exists>rp fa ra. rp \<noteq> 0
                 \<and> row_reward_token_price (hd (map (fill_missing a) df)) = Some rp
                 \<and> row_apy_trading_fee (hd (map (fill_missing a) df)) = Some fa
                 \<and> row_apy_reward (hd (map (fill_missing a) df)) = Some ra)
          \<longrightarrow> epoch a c (map (fill_missing a) df) (hd (map (fill_missing a) df)) st = Inl TypeError
            \<and> simulate df a = Inl TypeError)"
proof -
  let ?df = "map (fill_missing a) df"
  obtain r0 rest where df: "df = r0 # rest" using ne by (cases df) auto
  have hd: "hd ?df = fill_missing a r0" and hd_in: "r0 \<in> set df" by (simp_all add: df)
  obtain res where "add_liquidity (arg_initial_cap a) (arg_leverage a)
      (row_token0_price (fill_missing a r0), row_token1_price (fill_missing a r0))
      (arg_fee_swap a) (arg_fee_gas a) = Inr res"
    using add_liquidity_total [OF lev] by blast
  then have "\<exists>c st. simulate_init a ?df = Inr (c, st)"
    using opn by (auto simp: simulate_init_def df split: prod.splits)
  then obtain c st where init: "simulate_init a ?df = Inr (c, st)" by blast
  have sim: "simulate df a = Inl e" if "epoch a c ?df (hd ?df) st = Inl e" for e
  proof -
    have "simulate df a = simulate_loop a c ?df ?df st"
      by (simp add: simulate_def init Let_def)
    also have "\<dots> = Inl e" using that by (simp add: df)
    finally show ?thesis .
  qed
  have key: "epoch a c ?df (hd ?df) st = Inl KeyError"
    if "(\<forall>row\<in>set df. row_reward_token_price row = None) \<and> arg_reward_token_price a = None
          \<or> (\<forall>row\<in>set df. row_apy_trading_fee row = None) \<and> arg_apy_trading_fee a = None
          \<or> (\<forall>row\<in>set df. row_apy_reward row = None) \<and> arg_apy_reward a = None"
  proof -
    from that hd_in have
      "row_reward_token_price (hd ?df) = None \<or> row_apy_trading_fee (hd ?df) = None
       \<or> row_apy_reward (hd ?df) = None"
      unfolding hd by (auto simp: fill_missing_def fill_col_def)
    then show ?thesis
      by (auto simp: epoch_def Let_def split: option.splits)
  qed
  have bor: "epoch a c ?df (hd ?df) st = Inl TypeError"
    if "((\<forall>row\<in>set df. row_apy_borrow_token0 row = None) \<and> arg_apy_borrow_token0 a = None
            \<or> (\<forall>row\<in>set df. row_apy_borrow_token1 row = None) \<and> arg_apy_borrow_token1 a = None)
           \<and> (\<exists>rp fa ra. rp \<noteq> 0
                 \<and> row_reward_token_price (hd ?df) = Some rp
                 \<and> row_apy_trading_fee (hd ?df) = Some fa
                 \<and> row_apy_reward (hd ?df) = Some ra)"
  proof -
    from that have n: "arg_apy_borrow_token0 a = None \<or> arg_apy_borrow_token1 a = None"
      by (elim conjE disjE) (erule disjI1, erule disjI2)
    from that have "\<exists>rp fa ra. rp \<noteq> 0
                 \<and> row_reward_token_price (hd ?df) = Some rp
                 \<and> row_apy_trading_fee (hd ?df) = Some fa
                 \<and> row_apy_reward (hd ?df) = Some ra"
      by (rule conjunct2)
    then obtain rp fa ra where c: "row_reward_token_price (hd ?df) = Some rp"
      "row_apy_trading_fee (hd ?df) = Some fa" "row_apy_reward (hd ?df) = Some ra"
      by (elim exE conjE) (rule that)
    from n show ?thesis
      by (auto simp: epoch_def Let_def c split: option.splits)
  qed
  show ?thesis
  proof (intro exI conjI impI)
    show "simulate_init a ?df = Inr (c, st)" by (rule init)
  next
    assume h: "(\<forall>row\<in>set df. row_reward_token_price row = None) \<and> arg_reward_token_price a = None
          \<or> (\<forall>row\<in>set df. row_apy_trading_fee row = None) \<and> arg_apy_trading_fee a = None
          \<or> (\<forall>row\<in>set df. row_apy_reward row = None) \<and> arg_apy_reward a = None"
    show "epoch a c ?df (hd ?df) st = Inl KeyError" by (rule key [OF h])
    then show "simulate df a = Inl KeyError" by (rule sim)
  next
    assume h: "((\<forall>row\<in>set df. row_apy_borrow_token0 row = None) \<and> arg_apy_borrow_token0 a = None
            \<or> (\<forall>row\<in>set df. row_apy_borrow_token1 row = None) \<and> arg_apy_borrow_token1 a = None)
           \<and> (\<exists>rp fa ra. rp \<noteq> 0
                 \<and> row_reward_token_price (hd ?df) = Some rp
                 \<and> row_apy_trading_fee (hd ?df) = Some fa
                 \<and> row_apy_reward (hd ?df) = Some ra)"
    show "epoch a c ?df (hd ?df) st = Inl TypeError" by (rule bor [OF h])
    then show "simulate df a = Inl TypeError" by (rule sim)
  qed
qed

theorem missing_input_fails_in_first_epoch_witness:
  "simulate_init (ex_hodl_args 1 0) (map (fill_missing (ex_hodl_args 1 0)) ex_no_reward_price_table)
     = Inr (ex_consts, ex_state HODLStrategy)
   \<and> simulate ex_no_reward_price_table (ex_hodl_args 1 0) = Inl KeyError
   \<and> simulate_init ((ex_hodl_args 1 0)\<lparr>arg_apy_borrow_token1 := None\<rparr>)
        (map (fill_missing ((ex_hodl_args 1 0)\<lparr>arg_apy_borrow_token1 := None\<rparr>)) ex_flat_table)
     = Inr (ex_consts, ex_state HODLStrategy)
   \<and> simulate ex_flat_table ((ex_hodl_args 1 0)\<lparr>arg_apy_borrow_token1 := None\<rparr>) = Inl TypeError"
proof -
  let ?a = "ex_hodl_args 1 0"
  let ?b = "(ex_hodl_args 1 0)\<lparr>arg_apy_borrow_token1 := None\<rparr>"
  have i1: "simulate_init ?a (map (fill_missing ?a) ex_no_reward_price_table)
              = Inr (ex_consts, ex_state HODLStrategy)"
    by (simp add: ex_no_reward_price_table_def ex_hodl_args_def ex_consts_def ex_state_def
          simulate_init_def add_liquidity_def fill_missing_def fill_col_def)
  have g1: "ex_no_reward_price_table \<noteq> []" "arg_open_on_start ?a"
    "arg_leverage ?a = 1 \<or> 2 \<le> arg_leverage ?a"
    "\<forall>row\<in>set ex_no_reward_price_table. 0 < row_token0_price row \<and> 0 < row_token1_price row"
    by (simp_all add: ex_no_reward_price_table_def ex_hodl_args_def)
  have h1: "(\<forall>row\<in>set ex_no_reward_price_table. row_reward_token_price row = None)
            \<and> arg_reward_token_price ?a = None"
    by (simp add: ex_no_reward_price_table_def ex_hodl_args_def)
  from missing_input_fails_in_first_epoch [OF g1] h1
  have s1: "simulate ex_no_reward_price_table ?a = Inl KeyError" by blast
  have i2: "simulate_init ?b (map (fill_missing ?b) ex_flat_table)
              = Inr (ex_consts, ex_state HODLStrategy)"
    by (simp add: ex_flat_table_def ex_hodl_args_def ex_consts_def ex_state_def
          simulate_init_def add_liquidity_def fill_missing_def fill_col_def)
  have g2: "ex_flat_table \<noteq> []" "arg_open_on_start ?b"
    "arg_leverage ?b = 1 \<or> 2 \<le> arg_leverage ?b"
    "\<forall>row\<in>set ex_flat_table. 0 < row_token0_price row \<and> 0 < row_token1_price row"
    by (simp_all add: ex_flat_table_def ex_hodl_args_def)
  have h2: "((\<forall>row\<in>set ex_flat_table. row_apy_borrow_token0 row = None) \<and> arg_apy_borrow_token0 ?b = None
            \<or> (\<forall>row\<in>set ex_flat_table. row_apy_borrow_token1 row = None) \<and> arg_apy_borrow_token1 ?b = None)
           \<and> (\<exists>rp fa ra. rp \<noteq> 0
                 \<and> row_reward_token_price (hd (map (fill_missing ?b) ex_flat_table)) = Some rp
                 \<and> row_apy_trading_fee (hd (map (fill_missing ?b) ex_flat_table)) = Some fa
                 \<and> row_apy_reward (hd (map (fill_missing ?b) ex_flat_table)) = Some ra)"
    by (simp add: ex_flat_table_def ex_hodl_args_def fill_missing_def fill_col_def)
  from missing_input_fails_in_first_epoch [OF g2] h2
  have s2: "simulate ex_flat_table ?b = Inl TypeError" by blast
  show ?thesis using i1 s1 i2 s2 by simp
qed

text \<open>
  The claim as stated has the error raised before the loop begins. Without the reward
  token price the part before the loop completes (the position is opened) and the error
  comes from the loop.
\<close>

theorem missing_input_before_loop_counterexample:
  "\<not> isl (simulate_init (ex_hodl_args 1 0)
             (map (fill_missing (ex_hodl_args 1 0)) ex_no_reward_price_table))
   \<and> simulate ex_no_reward_price_table (ex_hodl_args 1 0) = Inl KeyError"
  by (simp add: ex_no_reward_price_table_def ex_hodl_args_def run_simps)

subsection \<open>The compounding strategy's initializer\<close>

text \<open>
  C9. Whatever the two arguments, the initializer of the compounding reward strategy
  raises \<open>TypeError\<close>: it passes two arguments to the initializer of its base class,
  which takes one.
\<close>

theorem compound_init_fails:
  "CompoundRewardsStrategy_init rewards_fn sell_amount = Inl TypeError"
  by (simp add: CompoundRewardsStrategy_init_def RewardsStrategy_init_def)

subsection \<open>Partial close on rebalance\<close>

text \<open>
  C10. When the rebalancing strategy returns after price_delta exceeded its threshold,
  the partial close computed the retained supply and debt, (1 - amount) times the
  position, and the cash of the closed fraction; the supply and debt returned are those of
  an opening on that cash alone, so the retained part is not in the returned position.
\<close>

theorem rebalance_reopens_from_proceeds_only:
  assumes ex: "RebalanceStrategy_execute self s d df cash = Inr (s', d', cash', f', m, self')"
    and trig: "self_threshold self
            < \<bar>row_token1_price (last df) - self_price_anchor self\<bar> / self_price_anchor self"
  shows "remove_liquidity s d (row_token0_price (last df), row_token1_price (last df))
           (self_amount self) (self_fee_swap self) (self_fee_gas self)
         = ((fst s * (1 - self_amount self), snd s * (1 - self_amount self)),
            (fst d * (1 - self_amount self), snd d * (1 - self_amount self)),
            (fst s - fst d) * self_amount self * row_token0_price (last df) * (1 - self_fee_swap self)
              + (snd s - snd d) * self_amount self * row_token1_price (last df) * (1 - self_fee_swap self),
            self_fee_gas self + self_fee_gas self)
       \<and> (\<exists>fo. add_liquidity
                 ((fst s - fst d) * self_amount self * row_token0_price (last df) * (1 - self_fee_swap self)
                   + (snd s - snd d) * self_amount self * row_token1_price (last df) * (1 - self_fee_swap self))
                 (self_leverage self) (row_token0_price (last df), row_token1_price (last df))
                 (self_fee_swap self) (self_fee_gas self)
               = Inr (s', d', fo))"
proof -
  have ne: "df \<noteq> []" using ex by (auto simp: RebalanceStrategy_execute_def)
  have rm: "remove_liquidity s d (row_token0_price (last df), row_token1_price (last df))
           (self_amount self) (self_fee_swap self) (self_fee_gas self)
         = ((fst s * (1 - self_amount self), snd s * (1 - self_amount self)),
            (fst d * (1 - self_amount self), snd d * (1 - self_amount self)),
            (fst s - fst d) * self_amount self * row_token0_price (last df) * (1 - self_fee_swap self)
              + (snd s - snd d) * self_amount self * row_token1_price (last df) * (1 - self_fee_swap self),
            self_fee_gas self + self_fee_gas self)"
    by (cases s; cases d) (simp add: remove_liquidity_def Let_def)
  from ex rebalance_execute_trigger [OF ne trig rm, of cash]
  have "\<exists>fo. add_liquidity
                 ((fst s - fst d) * self_amount self * row_token0_price (last df) * (1 - self_fee_swap self)
                   + (snd s - snd d) * self_amount self * row_token1_price (last df) * (1 - self_fee_swap self))
                 (self_leverage self) (row_token0_price (last df), row_token1_price (last df))
                 (self_fee_swap self) (self_fee_gas self)
               = Inr (s', d', fo)"
    by (auto split: sum.splits)
  with rm show ?thesis by blast
qed

theorem rebalance_reopens_from_proceeds_only_witness:
  "RebalanceStrategy_execute (RebalanceStrategy_init 1 (1 / 10) 1 (1 / 2) 0 0) (200, 50) (0, 0)
       ex_jump_table 0
     = Inr ((100, 25), (0, 0), 0, 0, [(''price_delta'', 3)],
            (RebalanceStrategy_init 1 (1 / 10) 1 (1 / 2) 0 0)\<lparr>self_price_anchor := 4\<rparr>)
   \<and> remove_liquidity (200, 50) (0, 0) (1, 4) (1 / 2) 0 0 = ((100, 25), (0, 0), 200, 0)
   \<and> add_liquidity 200 1 (1, 4) 0 0 = Inr ((100, 25), (0, 0), 0)"
proof -
  let ?self = "RebalanceStrategy_init 1 (1 / 10) 1 (1 / 2) 0 0"
  have e: "RebalanceStrategy_execute ?self (200, 50) (0, 0) ex_jump_table 0
     = Inr ((100, 25), (0, 0), 0, 0, [(''price_delta'', 3)], ?self\<lparr>self_price_anchor := 4\<rparr>)"
    by (simp add: ex_jump_table_def run_simps)
  have t: "self_threshold ?self
            < \<bar>row_token1_price (last ex_jump_table) - self_price_anchor ?self\<bar> / self_price_anchor ?self"
    by (simp add: ex_jump_table_def RebalanceStrategy_init_def)
  from rebalance_reopens_from_proceeds_only [OF e t]
  have "remove_liquidity (200, 50) (0, 0) (1, 4) (1 / 2) 0 0 = ((100, 25), (0, 0), 200, 0)"
    "\<exists>fo. add_liquidity 200 1 (1, 4) 0 0 = Inr ((100, 25), (0, 0), fo)"
    by (simp_all add: ex_jump_table_def RebalanceStrategy_init_def)
  moreover have "add_liquidity 200 1 (1, 4) 0 0 = Inr ((100, 25), (0, 0), 0)"
    by (simp add: add_liquidity_def)
  ultimately show ?thesis using e by simp
qed

end
